theory Spec2Isabelle
  imports Complex_Main
begin

section \<open>Python values\<close>

text \<open>
  The function get-wallet-holdings works on decoded JSON throughout: the bodies of the
  GraphQL answers, the tokens of the inventory page and the dictionaries it builds itself.
  A value is therefore a \<open>json\<close>; a dictionary is an association list read with
  \<open>map_of\<close> (keys in insertion order). Python's \<open>None\<close> is \<open>JNull\<close>.
  A Python float is an exact rational here: rounding, infinities and NaN are outside the
  model. Values of the relational store (text, numeric, NULL) are values of the same type.
\<close>

datatype json =
    JNull
  | JBool bool
  | JInt int
  | JFloat rat
  | JStr string
  | JArr "json list"
  | JObj "(string \<times> json) list"

datatype exc =
    TypeError
  | KeyError
  | ValueError
  | AttributeError
  | ZeroDivisionError
  | RequestError

text \<open>A computation that may raise: \<open>Inl\<close> is the exception, \<open>Inr\<close> the value.\<close>

definition bnd :: "exc + 'a \<Rightarrow> ('a \<Rightarrow> exc + 'b) \<Rightarrow> exc + 'b" where
  "bnd m f = (case m of Inl e \<Rightarrow> Inl e | Inr x \<Rightarrow> f x)"

text \<open>\<^verbatim>\<open>try: m  except Exception: h\<close>\<close>

definition try_except :: "exc + 'a \<Rightarrow> (exc \<Rightarrow> exc + 'a) \<Rightarrow> exc + 'a" where
  "try_except m h = (case m of Inl e \<Rightarrow> h e | Inr x \<Rightarrow> Inr x)"

fun map_exc :: "('a \<Rightarrow> exc + 'b) \<Rightarrow> 'a list \<Rightarrow> exc + 'b list" where
  "map_exc f [] = Inr []"
| "map_exc f (x # xs) = bnd (f x) (\<lambda>y. bnd (map_exc f xs) (\<lambda>ys. Inr (y # ys)))"

text \<open>
  The builtins of Python whose results are not modelled digit by digit are parameters of
  the model; every theorem holds for each way they may behave.
\<close>

record py_builtins =
  float_of_str :: "string \<Rightarrow> rat option"
    \<comment> \<open>\<^verbatim>\<open>float(s)\<close> of a str; \<open>None\<close> is ValueError\<close>
  int_of_str :: "string \<Rightarrow> int option"
    \<comment> \<open>\<^verbatim>\<open>int(s)\<close> of a str; \<open>None\<close> is ValueError\<close>
  format_1f :: "rat \<Rightarrow> string"
    \<comment> \<open>\<^verbatim>\<open>f"{x:.1f}"\<close> of a float\<close>
  repr_other :: "json \<Rightarrow> string"
    \<comment> \<open>\<^verbatim>\<open>str(v)\<close> of a float, a list or a dict\<close>
  fromisoformat :: "string \<Rightarrow> int option"
    \<comment> \<open>\<^verbatim>\<open>datetime.fromisoformat(s)\<close> as a naive time stamp in microseconds;
        \<open>None\<close> is ValueError (an offset-aware result raises on the comparison of the
        next line and is counted here)\<close>

fun truthy :: "json \<Rightarrow> bool" where
  "truthy JNull = False"
| "truthy (JBool b) = b"
| "truthy (JInt i) = (i \<noteq> 0)"
| "truthy (JFloat r) = (r \<noteq> 0)"
| "truthy (JStr s) = (s \<noteq> [])"
| "truthy (JArr xs) = (xs \<noteq> [])"
| "truthy (JObj kvs) = (kvs \<noteq> [])"

text \<open>\<^verbatim>\<open>a or b\<close>\<close>

definition py_or :: "json \<Rightarrow> json \<Rightarrow> json" where
  "py_or a b = (if truthy a then a else b)"

text \<open>\<^verbatim>\<open>d.get(k, default)\<close>: only a dict has the method.\<close>

fun dict_get :: "json \<Rightarrow> string \<Rightarrow> json \<Rightarrow> exc + json" where
  "dict_get (JObj kvs) k d = Inr (case map_of kvs k of None \<Rightarrow> d | Some v \<Rightarrow> v)"
| "dict_get _ k d = Inl AttributeError"

text \<open>\<^verbatim>\<open>d[k]\<close> with a str key.\<close>

fun getitem :: "json \<Rightarrow> string \<Rightarrow> exc + json" where
  "getitem (JObj kvs) k = (case map_of kvs k of None \<Rightarrow> Inl KeyError | Some v \<Rightarrow> Inr v)"
| "getitem _ k = Inl TypeError"

text \<open>\<^verbatim>\<open>for x in v\<close>: a list gives its elements, a dict its keys, a str its characters.\<close>

fun py_iter :: "json \<Rightarrow> exc + json list" where
  "py_iter (JArr xs) = Inr xs"
| "py_iter (JObj kvs) = Inr (map (\<lambda>k. JStr k) (remdups (map fst kvs)))"
| "py_iter (JStr s) = Inr (map (\<lambda>c. JStr [c]) s)"
| "py_iter _ = Inl TypeError"

text \<open>\<^verbatim>\<open>v[:4]\<close>\<close>

fun slice4 :: "json \<Rightarrow> exc + json list" where
  "slice4 (JArr xs) = Inr (take 4 xs)"
| "slice4 (JStr s) = Inr (map (\<lambda>c. JStr [c]) (take 4 s))"
| "slice4 _ = Inl TypeError"

fun is_substr :: "string \<Rightarrow> string \<Rightarrow> bool" where
  "is_substr s [] = (s = [])"
| "is_substr s (c # cs) = (take (length s) (c # cs) = s \<or> is_substr s cs)"

text \<open>\<^verbatim>\<open>k in v\<close> with a str \<open>k\<close>.\<close>

fun py_in :: "string \<Rightarrow> json \<Rightarrow> exc + bool" where
  "py_in k (JObj kvs) = Inr (k \<in> set (map fst kvs))"
| "py_in k (JArr xs) = Inr (JStr k \<in> set xs)"
| "py_in k (JStr s) = Inr (is_substr k s)"
| "py_in k _ = Inl TypeError"

fun num_of :: "json \<Rightarrow> rat option" where
  "num_of (JBool b) = Some (if b then 1 else 0)"
| "num_of (JInt i) = Some (of_int i)"
| "num_of (JFloat r) = Some r"
| "num_of _ = None"

text \<open>\<^verbatim>\<open>float(v)\<close>\<close>

fun py_float :: "py_builtins \<Rightarrow> json \<Rightarrow> exc + rat" where
  "py_float rt (JStr s) = (case float_of_str rt s of None \<Rightarrow> Inl ValueError | Some r \<Rightarrow> Inr r)"
| "py_float rt v = (case num_of v of None \<Rightarrow> Inl TypeError | Some r \<Rightarrow> Inr r)"

text \<open>\<^verbatim>\<open>v > n\<close> with an int \<open>n\<close>: only numbers are ordered against an int.\<close>

definition py_gt :: "json \<Rightarrow> int \<Rightarrow> exc + bool" where
  "py_gt v n = (case num_of v of None \<Rightarrow> Inl TypeError | Some r \<Rightarrow> Inr (r > of_int n))"

text \<open>\<^verbatim>\<open>a / n\<close> of a float by a length.\<close>

definition py_div :: "rat \<Rightarrow> nat \<Rightarrow> exc + rat" where
  "py_div a n = (if n = 0 then Inl ZeroDivisionError else Inr (a / of_nat n))"

fun digits :: "nat \<Rightarrow> string" where
  "digits n = (if n < 10 then [''0123456789'' ! n]
               else digits (n div 10) @ [''0123456789'' ! (n mod 10)])"

declare digits.simps [simp del]

definition str_int :: "int \<Rightarrow> string" where
  "str_int i = (if i < 0 then CHR ''-'' # digits (nat (- i)) else digits (nat i))"

text \<open>\<^verbatim>\<open>str(v)\<close>, which is also what an f-string writes for \<^verbatim>\<open>{v}\<close>.\<close>

fun py_str :: "py_builtins \<Rightarrow> json \<Rightarrow> string" where
  "py_str rt JNull = ''None''"
| "py_str rt (JBool b) = (if b then ''True'' else ''False'')"
| "py_str rt (JInt i) = str_int i"
| "py_str rt (JStr s) = s"
| "py_str rt v = repr_other rt v"

lemma map_of_size_le:
  "Some v = map_of a k \<Longrightarrow> size v \<le> size_list (size_prod (\<lambda>_. 0) size) a"
  by (induction a) (auto split: if_splits)

text \<open>
  \<^verbatim>\<open>a == b\<close>: numbers (and booleans) compare by value, lists element by element,
  dicts as sets of bindings whatever their order.
\<close>

function (sequential) py_eq :: "json \<Rightarrow> json \<Rightarrow> bool" where
  "py_eq JNull JNull = True"
| "py_eq (JStr s) (JStr t) = (s = t)"
| "py_eq (JArr xs) (JArr ys) =
     (length xs = length ys \<and> list_all (\<lambda>(x, y). py_eq x y) (zip xs ys))"
| "py_eq (JObj a) (JObj b) =
     (set (map fst a) = set (map fst b) \<and>
      list_all (\<lambda>k. case (map_of a k, map_of b k) of
                      (Some v, Some w) \<Rightarrow> py_eq v w
                    | _ \<Rightarrow> False) (map fst a))"
| "py_eq x y = (case (num_of x, num_of y) of (Some a, Some b) \<Rightarrow> a = b | _ \<Rightarrow> False)"
  by pat_completeness auto
termination
  apply (relation "measure (\<lambda>(x, y). size x)")
    apply simp
   apply (auto dest!: set_zip_leftD simp: less_Suc_eq_le size_list_estimation' map_of_size_le)
  done

section \<open>The price of recent sales (lines 122 to 134)\<close>

text \<open>\<^verbatim>\<open>float(tx['price'])\<close>\<close>

definition tx_price :: "py_builtins \<Rightarrow> json \<Rightarrow> exc + rat" where
  "tx_price rt tx = bnd (getitem tx ''price'') (py_float rt)"

text \<open>\<^verbatim>\<open>s.split('T')[0]\<close>\<close>

definition split_T :: "string \<Rightarrow> string" where
  "split_T s = takeWhile (\<lambda>c. c \<noteq> CHR ''T'') s"

text \<open>\<^verbatim>\<open>datetime.fromisoformat(tx['date'].split('T')[0])\<close>\<close>

definition tx_date :: "py_builtins \<Rightarrow> json \<Rightarrow> exc + int" where
  "tx_date rt tx =
     bnd (getitem tx ''date'') (\<lambda>d.
       case d of
         JStr s \<Rightarrow> (case fromisoformat rt (split_T s) of
                      None \<Rightarrow> Inl ValueError
                    | Some t \<Rightarrow> Inr t)
       | _ \<Rightarrow> Inl AttributeError)"

definition usec_per_day :: int where
  "usec_per_day = 86400000000"

text \<open>
  The key \<^verbatim>\<open>tx_date.strftime('%Y-%m-%d')\<close> names the calendar day of the time
  stamp; the model keeps the number of that day.
\<close>

definition day_of :: "int \<Rightarrow> int" where
  "day_of t = t div usec_per_day"

text \<open>\<^verbatim>\<open>daily_prices[k].append(p)\<close> on a \<^verbatim>\<open>defaultdict(list)\<close>, keys in insertion order.\<close>

fun daily_append :: "(int \<times> rat list) list \<Rightarrow> int \<Rightarrow> rat \<Rightarrow> (int \<times> rat list) list" where
  "daily_append [] k p = [(k, [p])]"
| "daily_append ((k', ps) # rest) k p =
     (if k' = k then (k', ps @ [p]) # rest else (k', ps) # daily_append rest k p)"

text \<open>The loop of lines 125 to 128.\<close>

fun tx_loop ::
  "py_builtins \<Rightarrow> int \<Rightarrow> json list \<Rightarrow> (int \<times> rat list) list \<Rightarrow> exc + (int \<times> rat list) list"
where
  "tx_loop rt fifteen_days_ago [] daily_prices = Inr daily_prices"
| "tx_loop rt fifteen_days_ago (tx # txs) daily_prices =
     bnd (tx_date rt tx) (\<lambda>d.
       if d \<ge> fifteen_days_ago
       then bnd (tx_price rt tx) (\<lambda>p.
              tx_loop rt fifteen_days_ago txs (daily_append daily_prices (day_of d) p))
       else tx_loop rt fifteen_days_ago txs daily_prices)"

text \<open>\<^verbatim>\<open>sum(prices) / len(prices)\<close>\<close>

definition sum_div_len :: "rat list \<Rightarrow> exc + rat" where
  "sum_div_len prices = py_div (sum_list prices) (length prices)"

definition avg_price :: "py_builtins \<Rightarrow> int \<Rightarrow> json \<Rightarrow> json \<Rightarrow> exc + rat" where
  "avg_price rt now transactions supply =
     bnd (py_gt supply 3000) (\<lambda>liquid.
       if liquid then
         bnd (py_iter transactions) (\<lambda>txs.
         bnd (tx_loop rt (now - 15 * usec_per_day) txs []) (\<lambda>daily_prices.
           if daily_prices \<noteq> [] then
             bnd (map_exc (\<lambda>(k, prices). sum_div_len prices) daily_prices) (\<lambda>daily_averages.
               if daily_averages \<noteq> [] then sum_div_len daily_averages else Inr 0)
           else Inr 0))
       else
         bnd (slice4 transactions) (\<lambda>first4.
         bnd (map_exc (tx_price rt) first4) (\<lambda>recent_sales.
           if recent_sales \<noteq> [] then sum_div_len recent_sales else Inr 0)))"

section \<open>The valuation resolver (lines 30 to 147)\<close>

datatype request =
    Cert json
  | AssetDetails json string json
  | AssetMarketTransactions json string json

text \<open>
  An answer of the GraphQL server: its status and what \<^verbatim>\<open>response.json()\<close> gives
  (or raises). \<^verbatim>\<open>client.post\<close> itself may raise.
\<close>

datatype response = Response (status_code: int) (json_body: "exc + json")

type_synonym http_client = "request \<Rightarrow> exc + response"

record environ =
  ALT_AUTH_TOKEN :: "string option"
  ALT_COOKIE :: "string option"
  POSTGRES_HOST :: "string option"
  POSTGRES_PORT :: "string option"
  POSTGRES_DB :: "string option"
  POSTGRES_USER :: "string option"
  POSTGRES_PASSWORD :: "string option"

text \<open>The truth value of \<^verbatim>\<open>os.getenv(..)\<close>: unset and empty are both false.\<close>

definition env_set :: "string option \<Rightarrow> bool" where
  "env_set v = (case v of None \<Rightarrow> False | Some s \<Rightarrow> s \<noteq> [])"

definition get_asset_id_try :: "http_client \<Rightarrow> json \<Rightarrow> exc + json" where
  "get_asset_id_try client cert_id =
     bnd (client (Cert cert_id)) (\<lambda>response.
       if status_code response \<noteq> 200 then Inr JNull
       else
         bnd (json_body response) (\<lambda>data.
         bnd (dict_get data ''data'' (JObj [])) (\<lambda>d1.
         bnd (dict_get d1 ''cert'' (JObj [])) (\<lambda>d2.
         bnd (dict_get d2 ''asset'' JNull) (\<lambda>asset.
           if truthy asset then
             bnd (py_in ''id'' asset) (\<lambda>has_id.
               if has_id then getitem asset ''id'' else Inr JNull)
           else Inr JNull)))))"

definition get_asset_id_async :: "http_client \<Rightarrow> json \<Rightarrow> exc + json" where
  "get_asset_id_async client cert_id =
     try_except (get_asset_id_try client cert_id) (\<lambda>e. Inr JNull)"

text \<open>\<^verbatim>\<open>f"{float(grade):.1f}"\<close>\<close>

definition grade_1f :: "py_builtins \<Rightarrow> json \<Rightarrow> exc + string" where
  "grade_1f rt grade = bnd (py_float rt grade) (\<lambda>g. Inr (format_1f rt g))"

text \<open>The loop of lines 116 to 120, over the entries of \<^verbatim>\<open>cardPops\<close>.\<close>

fun supply_scan :: "py_builtins \<Rightarrow> json \<Rightarrow> json \<Rightarrow> json list \<Rightarrow> exc + json" where
  "supply_scan rt company grade [] = Inr (JInt 0)"
| "supply_scan rt company grade (pop # pops) =
     bnd (dict_get pop ''gradingCompany'' JNull) (\<lambda>c.
       if py_eq c company then
         bnd (dict_get pop ''gradeNumber'' JNull) (\<lambda>n.
         bnd (grade_1f rt grade) (\<lambda>g.
           if py_str rt n = g then dict_get pop ''count'' (JInt 0)
           else supply_scan rt company grade pops))
       else supply_scan rt company grade pops)"

definition get_alt_data_try ::
  "py_builtins \<Rightarrow> http_client \<Rightarrow> int \<Rightarrow> json \<Rightarrow> json \<Rightarrow> json \<Rightarrow> exc + json"
where
  "get_alt_data_try rt client now asset_id grade company =
     bnd (grade_1f rt grade) (\<lambda>g.
     bnd (grade_1f rt grade) (\<lambda>g'.
     bnd (client (AssetDetails asset_id g company)) (\<lambda>details_response.
     bnd (client (AssetMarketTransactions asset_id g' company)) (\<lambda>trans_response.
       if status_code details_response \<noteq> 200 \<or> status_code trans_response \<noteq> 200
       then Inr JNull
       else
         bnd (json_body details_response) (\<lambda>dj.
         bnd (dict_get dj ''data'' (JObj [])) (\<lambda>dd.
         bnd (dict_get dd ''asset'' (JObj [])) (\<lambda>da.
         let details_data = py_or da (JObj []) in
         bnd (json_body trans_response) (\<lambda>tj.
         bnd (dict_get tj ''data'' (JObj [])) (\<lambda>td.
         bnd (dict_get td ''asset'' (JObj [])) (\<lambda>ta.
         bnd (dict_get ta ''marketTransactions'' (JArr [])) (\<lambda>transactions.
         bnd (dict_get details_data ''altValueInfo'' (JObj [])) (\<lambda>avi.
         let alt_value_info = py_or avi (JObj []) in
         bnd (dict_get alt_value_info ''confidenceData'' (JObj [])) (\<lambda>cd.
         let confidence_data = py_or cd (JObj []) in
         bnd (dict_get details_data ''cardPops'' (JArr [])) (\<lambda>card_pops.
         bnd (py_iter card_pops) (\<lambda>pops.
         bnd (supply_scan rt company grade pops) (\<lambda>supply.
         bnd (avg_price rt now transactions supply) (\<lambda>avg.
         bnd (dict_get alt_value_info ''currentAltValue'' JNull) (\<lambda>cur.
         bnd (dict_get confidence_data ''currentErrorLowerBound'' JNull) (\<lambda>lo.
         bnd (dict_get confidence_data ''currentErrorUpperBound'' JNull) (\<lambda>hi.
         bnd (dict_get confidence_data ''currentConfidenceMetric'' JNull) (\<lambda>cm.
           Inr (JObj
             [(''alt_asset_id'', asset_id),
              (''alt_value'', py_or cur (JFloat 0)),
              (''avg_price'', JFloat avg),
              (''supply'', supply),
              (''lower_bound'', py_or lo (JFloat 0)),
              (''upper_bound'', py_or hi (JFloat 0)),
              (''confidence'', py_or cm (JFloat 0))]))))))))))))))))))))))"

definition get_alt_data_async ::
  "py_builtins \<Rightarrow> environ \<Rightarrow> http_client \<Rightarrow> int \<Rightarrow> json \<Rightarrow> json \<Rightarrow> json \<Rightarrow> exc + json"
where
  "get_alt_data_async rt env client now cert_id grade company =
     (if \<not> env_set (ALT_AUTH_TOKEN env) \<or> \<not> env_set (ALT_COOKIE env) then Inr JNull
      else
        bnd (get_asset_id_async client cert_id) (\<lambda>asset_id.
          if \<not> truthy asset_id then Inr JNull
          else try_except (get_alt_data_try rt client now asset_id grade company)
                 (\<lambda>e. Inr JNull)))"

section \<open>The orchestrator (lines 149 to 343)\<close>

text \<open>
  A key of a Python dict: \<open>None\<close>, a number (\<^verbatim>\<open>1\<close>, \<^verbatim>\<open>1.0\<close> and \<^verbatim>\<open>True\<close>
  are one key) or a str. A list or a dict is not hashable.
\<close>

datatype pykey = KNone | KNum rat | KStr string

fun py_hash :: "json \<Rightarrow> exc + pykey" where
  "py_hash JNull = Inr KNone"
| "py_hash (JBool b) = Inr (KNum (if b then 1 else 0))"
| "py_hash (JInt i) = Inr (KNum (of_int i))"
| "py_hash (JFloat r) = Inr (KNum r)"
| "py_hash (JStr s) = Inr (KStr s)"
| "py_hash (JArr xs) = Inl TypeError"
| "py_hash (JObj kvs) = Inl TypeError"

text \<open>
  \<^verbatim>\<open>cartel_data_map\<close>: from the mint of a token to the dict of its valuation. The
  dicts are built by this code only, so \<^verbatim>\<open>c_data.get(k)\<close> is a plain lookup.
\<close>

type_synonym cartel_data = "(string \<times> json) list"

type_synonym cartel_data_map = "pykey \<Rightarrow> cartel_data option"

definition c_get :: "cartel_data \<Rightarrow> string \<Rightarrow> json" where
  "c_get c_data k = (case map_of c_data k of None \<Rightarrow> JNull | Some v \<Rightarrow> v)"

text \<open>A row of the query of line 217, column by column.\<close>

record listing =
  col_token_mint :: string
  col_alt_value :: json
  col_avg_price :: json
  col_supply :: json
  col_alt_asset_id :: json
  col_alt_value_lower_bound :: json
  col_alt_value_upper_bound :: json
  col_name :: json
  col_grade :: json
  col_grade_num :: json
  col_grading_id :: json
  col_img_url :: json

text \<open>The dict of lines 221 to 232.\<close>

definition row_data :: "py_builtins \<Rightarrow> listing \<Rightarrow> cartel_data" where
  "row_data rt row =
     [(''alt_value'', col_alt_value row),
      (''cartel_avg'', col_avg_price row),
      (''supply'', col_supply row),
      (''alt_asset_id'', col_alt_asset_id row),
      (''alt_range'',
         if col_alt_value_lower_bound row \<noteq> JNull \<and> col_alt_value_upper_bound row \<noteq> JNull
         then JStr (py_str rt (col_alt_value_lower_bound row) @ '' - ''
                      @ py_str rt (col_alt_value_upper_bound row))
         else JNull),
      (''db_name'', col_name row),
      (''db_grade'', col_grade row),
      (''db_grade_num'', col_grade_num row),
      (''db_grading_id'', col_grading_id row),
      (''db_img_url'', col_img_url row)]"

fun store_rows :: "py_builtins \<Rightarrow> listing list \<Rightarrow> cartel_data_map \<Rightarrow> cartel_data_map" where
  "store_rows rt [] m = m"
| "store_rows rt (row # rows) m =
     store_rows rt rows (m(KStr (col_token_mint row) := Some (row_data rt row)))"

text \<open>
  The relational store: what connecting, running the query for the given mints and
  fetching the rows gives, or the exception one of them raises.
\<close>

type_synonym database = "json list \<Rightarrow> exc + listing list"

text \<open>
  Lines 204 to 236. An exception of the store comes before the first row is read, so
  the handler finds the map empty.
\<close>

definition cache_lookup ::
  "py_builtins \<Rightarrow> environ \<Rightarrow> database \<Rightarrow> json list \<Rightarrow> exc + cartel_data_map"
where
  "cache_lookup rt env db token_mints =
     (if token_mints \<noteq> []
         \<and> list_all env_set
             [POSTGRES_HOST env, POSTGRES_PORT env, POSTGRES_DB env, POSTGRES_USER env,
              POSTGRES_PASSWORD env]
      then try_except
             (bnd (db token_mints) (\<lambda>rows. Inr (store_rows rt rows (\<lambda>k. None))))
             (\<lambda>db_e. Inr (\<lambda>k. None))
      else Inr (\<lambda>k. None))"

text \<open>\<^verbatim>\<open>get_attr(attrs, trait)\<close>, lines 249 to 253 and 285 to 289.\<close>

fun get_attr_loop :: "json list \<Rightarrow> string \<Rightarrow> exc + json" where
  "get_attr_loop [] trait = Inr JNull"
| "get_attr_loop (a # attrs) trait =
     bnd (dict_get a ''trait_type'' JNull) (\<lambda>t.
       if py_eq t (JStr trait) then dict_get a ''value'' JNull
       else get_attr_loop attrs trait)"

definition get_attr :: "json \<Rightarrow> string \<Rightarrow> exc + json" where
  "get_attr attrs trait = bnd (py_iter attrs) (\<lambda>as. get_attr_loop as trait)"

text \<open>Line 202: the mints that are not empty.\<close>

fun token_mints_of :: "json list \<Rightarrow> exc + json list" where
  "token_mints_of [] = Inr []"
| "token_mints_of (t # ts) =
     bnd (dict_get t ''mintAddress'' JNull) (\<lambda>mint.
     bnd (token_mints_of ts) (\<lambda>rest.
       Inr (if truthy mint then mint # rest else rest)))"

text \<open>
  What line 261 or line 264 appends to \<^verbatim>\<open>tasks\<close>: a call of the resolver, or the
  placeholder \<^verbatim>\<open>asyncio.sleep(0)\<close>.
\<close>

datatype task = Fetch json json json | Sleep

text \<open>
  Lines 243 to 264. \<^verbatim>\<open>tokens_to_fetch\<close> and \<^verbatim>\<open>tasks\<close> grow together and are one list
  of pairs here; the mint is kept as the key it is in \<^verbatim>\<open>cartel_data_map\<close>.
\<close>

fun tokens_to_fetch :: "cartel_data_map \<Rightarrow> json list \<Rightarrow> exc + (pykey \<times> task) list" where
  "tokens_to_fetch m [] = Inr []"
| "tokens_to_fetch m (token # tokens) =
     bnd (dict_get token ''mintAddress'' JNull) (\<lambda>mint.
     bnd (py_hash mint) (\<lambda>k.
       if m k \<noteq> None then tokens_to_fetch m tokens
       else
         bnd (dict_get token ''attributes'' (JArr [])) (\<lambda>attributes.
         bnd (get_attr attributes ''Grading ID'') (\<lambda>cert_id.
         bnd (get_attr attributes ''The Grade'') (\<lambda>grade.
         bnd (get_attr attributes ''Grading Company'') (\<lambda>company.
         bnd (tokens_to_fetch m tokens) (\<lambda>rest.
           Inr ((k, if truthy cert_id \<and> truthy grade \<and> truthy company
                    then Fetch cert_id grade company else Sleep) # rest))))))))"

text \<open>
  The world of the sub-tasks: the answers the server gives to the \<open>i\<close>-th task and the
  clock that task reads. Nothing else of the order in which the tasks run is visible to
  the code, since \<^verbatim>\<open>asyncio.gather\<close> returns the results in the order of the tasks.
\<close>

record world =
  answers :: "nat \<Rightarrow> http_client"
  clock :: "nat \<Rightarrow> int"

definition run_task :: "py_builtins \<Rightarrow> environ \<Rightarrow> world \<Rightarrow> nat \<Rightarrow> task \<Rightarrow> exc + json" where
  "run_task rt env w i t =
     (case t of
        Sleep \<Rightarrow> Inr JNull
      | Fetch cert_id grade company \<Rightarrow>
          get_alt_data_async rt env (answers w i) (clock w i) cert_id grade company)"

text \<open>\<^verbatim>\<open>await asyncio.gather(*tasks)\<close>\<close>

fun gather :: "py_builtins \<Rightarrow> environ \<Rightarrow> world \<Rightarrow> nat \<Rightarrow> task list \<Rightarrow> exc + json list" where
  "gather rt env w i [] = Inr []"
| "gather rt env w i (t # ts) =
     bnd (run_task rt env w i t) (\<lambda>res.
     bnd (gather rt env w (Suc i) ts) (\<lambda>rest. Inr (res # rest)))"

text \<open>The dict of lines 271 to 277.\<close>

definition fetched_data :: "py_builtins \<Rightarrow> json \<Rightarrow> exc + cartel_data" where
  "fetched_data rt res =
     bnd (getitem res ''alt_value'') (\<lambda>alt_value.
     bnd (getitem res ''avg_price'') (\<lambda>avg.
     bnd (getitem res ''supply'') (\<lambda>supply.
     bnd (getitem res ''alt_asset_id'') (\<lambda>alt_asset_id.
     bnd (getitem res ''lower_bound'') (\<lambda>lower_bound.
     bnd (getitem res ''upper_bound'') (\<lambda>upper_bound.
       Inr [(''alt_value'', alt_value),
            (''cartel_avg'', avg),
            (''supply'', supply),
            (''alt_asset_id'', alt_asset_id),
            (''alt_range'',
               JStr (py_str rt lower_bound @ '' - '' @ py_str rt upper_bound))]))))))"

text \<open>Lines 268 to 277.\<close>

fun store_results ::
  "py_builtins \<Rightarrow> cartel_data_map \<Rightarrow> (pykey \<times> json) list \<Rightarrow> exc + cartel_data_map"
where
  "store_results rt m [] = Inr m"
| "store_results rt m ((mint, res) # rest) =
     (if truthy res
      then bnd (fetched_data rt res) (\<lambda>c. store_results rt (m(mint := Some c)) rest)
      else store_results rt m rest)"

text \<open>The body of the loop of lines 281 to 317.\<close>

definition format_token :: "py_builtins \<Rightarrow> cartel_data_map \<Rightarrow> json \<Rightarrow> exc + json" where
  "format_token rt m token =
     bnd (dict_get token ''mintAddress'' JNull) (\<lambda>mint.
     bnd (dict_get token ''attributes'' (JArr [])) (\<lambda>attributes.
     bnd (dict_get token ''name'' JNull) (\<lambda>name.
     bnd (dict_get token ''image'' JNull) (\<lambda>img.
     bnd (get_attr attributes ''The Grade'') (\<lambda>grade.
     bnd (get_attr attributes ''GradeNum'') (\<lambda>grade_num.
     bnd (get_attr attributes ''Grading ID'') (\<lambda>grading_id.
     bnd (py_hash mint) (\<lambda>k.
       let c_data = (case m k of None \<Rightarrow> [] | Some c \<Rightarrow> c);
           alt_asset_id = c_get c_data ''alt_asset_id'';
           alt_link = (if truthy alt_asset_id
                       then JStr (''https://alt.xyz/assets/'' @ py_str rt alt_asset_id)
                       else JNull)
       in Inr (JObj
            [(''mint'', mint),
             (''name'', py_or (c_get c_data ''db_name'') name),
             (''grade'', py_or (c_get c_data ''db_grade'') grade),
             (''grading_number'', py_or (c_get c_data ''db_grade_num'') grade_num),
             (''supply'', c_get c_data ''supply''),
             (''img'', py_or (c_get c_data ''db_img_url'') img),
             (''alt_value'', py_or (c_get c_data ''alt_value'') (JStr ''N/A'')),
             (''alt_range'', py_or (c_get c_data ''alt_range'') (JStr ''N/A'')),
             (''cartel_avg'', py_or (c_get c_data ''cartel_avg'') (JStr ''N/A'')),
             (''alt_link'', py_or alt_link (JStr ''N/A''))])))))))))"

text \<open>
  The inventory source: what the request of line 196 for a wallet, a limit and an offset
  returns as decoded JSON, or the exception of the request, of
  \<^verbatim>\<open>raise_for_status\<close> or of the decoding.
\<close>

type_synonym inventory = "string \<Rightarrow> int \<Rightarrow> int \<Rightarrow> exc + json"

datatype http_response = HttpResponse (http_status: int) (http_body: json)

text \<open>Lines 202 to 236: the mints of the page, looked up in the store.\<close>

definition lookup_page ::
  "py_builtins \<Rightarrow> environ \<Rightarrow> database \<Rightarrow> json list \<Rightarrow> exc + cartel_data_map"
where
  "lookup_page rt env db tokens =
     bnd (token_mints_of tokens) (\<lambda>token_mints. cache_lookup rt env db token_mints)"

text \<open>\<^verbatim>\<open>cartel_data_map\<close> after step 3 (lines 202 to 277).\<close>

definition merged_map ::
  "py_builtins \<Rightarrow> environ \<Rightarrow> database \<Rightarrow> world \<Rightarrow> json list \<Rightarrow> exc + cartel_data_map"
where
  "merged_map rt env db w tokens =
     bnd (lookup_page rt env db tokens) (\<lambda>cartel_data_map.
     bnd (tokens_to_fetch cartel_data_map tokens) (\<lambda>to_fetch.
     bnd (gather rt env w 0 (map snd to_fetch)) (\<lambda>results.
       store_results rt cartel_data_map (zip (map fst to_fetch) results))))"

text \<open>Steps 2 to 4 (lines 202 to 317): \<^verbatim>\<open>formatted_tokens\<close> for the tokens of a page.\<close>

definition enrich ::
  "py_builtins \<Rightarrow> environ \<Rightarrow> database \<Rightarrow> world \<Rightarrow> json list \<Rightarrow> exc + json list"
where
  "enrich rt env db w tokens =
     bnd (merged_map rt env db w tokens) (\<lambda>cartel_data_map.
       map_exc (format_token rt cartel_data_map) tokens)"

text \<open>
  The \<^verbatim>\<open>try\<close> block of lines 169 to 336. The answer is kept as the dict handed to
  \<^verbatim>\<open>json.dumps\<close>.
\<close>

definition main_try ::
  "py_builtins \<Rightarrow> environ \<Rightarrow> inventory \<Rightarrow> database \<Rightarrow> world \<Rightarrow> string \<Rightarrow> int \<Rightarrow> int
     \<Rightarrow> exc + http_response"
where
  "main_try rt env me db w wallet_address offset limit =
     bnd (me wallet_address limit offset) (\<lambda>page.
     bnd (py_iter page) (\<lambda>tokens.
     bnd (enrich rt env db w tokens) (\<lambda>formatted_tokens.
       Inr (HttpResponse 200 (JObj
         [(''wallet'', JStr wallet_address),
          (''tokens'', JArr formatted_tokens),
          (''count'', JInt (int (length formatted_tokens))),
          (''offset'', JInt offset),
          (''limit'', JInt limit)])))))"

text \<open>\<^verbatim>\<open>int(req.params.get(name, default))\<close>\<close>

definition int_param :: "py_builtins \<Rightarrow> string option \<Rightarrow> int \<Rightarrow> exc + int" where
  "int_param rt p dflt =
     (case p of
        None \<Rightarrow> Inr dflt
      | Some s \<Rightarrow> (case int_of_str rt s of None \<Rightarrow> Inl ValueError | Some i \<Rightarrow> Inr i))"

text \<open>
  The query string of the request: \<^verbatim>\<open>wallet\<close>, \<^verbatim>\<open>offset\<close> and \<^verbatim>\<open>limit\<close>, each
  present or not.
\<close>

record params =
  wallet :: "string option"
  offset_param :: "string option"
  limit_param :: "string option"

text \<open>
  Lines 149 to 343. The text of the exception is left out of the body of the answer 500.
\<close>

definition main ::
  "py_builtins \<Rightarrow> environ \<Rightarrow> inventory \<Rightarrow> database \<Rightarrow> world \<Rightarrow> params \<Rightarrow> exc + http_response"
where
  "main rt env me db w req =
     bnd (int_param rt (offset_param req) 0) (\<lambda>offset.
     bnd (int_param rt (limit_param req) 20) (\<lambda>limit.
       case wallet req of
         None \<Rightarrow>
           Inr (HttpResponse 400 (JStr ''Please pass a wallet address on the query string''))
       | Some wallet_address \<Rightarrow>
           if wallet_address = []
           then Inr (HttpResponse 400 (JStr ''Please pass a wallet address on the query string''))
           else try_except (main_try rt env me db w wallet_address offset limit)
                  (\<lambda>e. Inr (HttpResponse 500 (JStr ''Error fetching wallet holdings'')))))"

section \<open>What the specification speaks of\<close>

text \<open>
  The arithmetic mean of a list of prices; of no price it is 0.
\<close>

definition mean :: "rat list \<Rightarrow> rat" where
  "mean xs = (if xs = [] then 0 else sum_list xs / of_nat (length xs))"









text \<open>
  An entry of \<^verbatim>\<open>cardPops\<close> that matches a request: same grading company, and a grade
  whose text is the requested grade with one decimal.
\<close>

definition is_dict :: "json \<Rightarrow> bool" where
  "is_dict v = (case v of JObj kvs \<Rightarrow> True | _ \<Rightarrow> False)"

fun dget :: "json \<Rightarrow> string \<Rightarrow> json \<Rightarrow> json" where
  "dget (JObj kvs) k d = (case map_of kvs k of None \<Rightarrow> d | Some v \<Rightarrow> v)"
| "dget _ k d = d"


text \<open>
  What the resolver returns when it returns data: the seven keys of line 136.
\<close>

definition is_alt_data :: "json \<Rightarrow> bool" where
  "is_alt_data r = (case r of
      JObj kvs \<Rightarrow> map fst kvs = [''alt_asset_id'', ''alt_value'', ''avg_price'', ''supply'',
                     ''lower_bound'', ''upper_bound'', ''confidence'']
    | _ \<Rightarrow> False)"

text \<open>
  The key of a token in \<^verbatim>\<open>cartel_data_map\<close>, and the sub-task lines 248 to 264
  choose for a token that is not in the map.
\<close>

definition token_key :: "json \<Rightarrow> exc + pykey" where
  "token_key token = bnd (dict_get token ''mintAddress'' JNull) py_hash"

definition token_task :: "json \<Rightarrow> exc + task" where
  "token_task token =
     bnd (dict_get token ''attributes'' (JArr [])) (\<lambda>attributes.
     bnd (get_attr attributes ''Grading ID'') (\<lambda>cert_id.
     bnd (get_attr attributes ''The Grade'') (\<lambda>grade.
     bnd (get_attr attributes ''Grading Company'') (\<lambda>company.
       Inr (if truthy cert_id \<and> truthy grade \<and> truthy company
            then Fetch cert_id grade company else Sleep)))))"

text \<open>
  The record \<^verbatim>\<open>cartel_data_map.get(mint, {})\<close> of a key, what
  \<^verbatim>\<open>value or "N/A"\<close> shows of a field, and an entry of the answer whose three valuation
  fields all show the marker.
\<close>

definition c_data_of :: "cartel_data_map \<Rightarrow> pykey \<Rightarrow> cartel_data" where
  "c_data_of m k = (case m k of None \<Rightarrow> [] | Some c \<Rightarrow> c)"

definition shown :: "json \<Rightarrow> json" where
  "shown v = py_or v (JStr ''N/A'')"

definition valuation_unavailable :: "json \<Rightarrow> bool" where
  "valuation_unavailable entry =
     (dget entry ''alt_value'' JNull = JStr ''N/A''
      \<and> dget entry ''alt_range'' JNull = JStr ''N/A''
      \<and> dget entry ''cartel_avg'' JNull = JStr ''N/A'')"

text \<open>
  What an entry shows of a field of the record of its token: the value when there is a
  record, it has the field and the value is true in the sense of Python; \<^verbatim>\<open>"N/A"\<close>
  otherwise.
\<close>

definition field_shown :: "cartel_data option \<Rightarrow> string \<Rightarrow> json" where
  "field_shown r f =
     (case r of
        None \<Rightarrow> JStr ''N/A''
      | Some c \<Rightarrow>
          (case map_of c f of
             None \<Rightarrow> JStr ''N/A''
           | Some v \<Rightarrow> if truthy v then v else JStr ''N/A''))"

text \<open>
  What the resolver returns for a token when it is asked as the \<open>j\<close>-th sub-task, and
  the results of the sub-tasks of a page: the tokens that are not in the cache are
  numbered in the order of the page, and each is paired with the result of the
  sub-task of its number.
\<close>

definition fetched_for :: "py_builtins \<Rightarrow> environ \<Rightarrow> world \<Rightarrow> nat \<Rightarrow> json \<Rightarrow> json" where
  "fetched_for rt env w j token =
     (case token_task token of
        Inr (Fetch cert_id grade company) \<Rightarrow>
          (case get_alt_data_async rt env (answers w j) (clock w j) cert_id grade company of
             Inr r \<Rightarrow> r
           | Inl e \<Rightarrow> JNull)
      | _ \<Rightarrow> JNull)"

fun sub_results ::
  "py_builtins \<Rightarrow> environ \<Rightarrow> world \<Rightarrow> cartel_data_map \<Rightarrow> nat \<Rightarrow> json list
     \<Rightarrow> (pykey \<times> json) list"
where
  "sub_results rt env w cache j [] = []"
| "sub_results rt env w cache j (token # tokens) =
     (case token_key token of
        Inr k \<Rightarrow>
          (if cache k = None
           then (k, fetched_for rt env w j token) # sub_results rt env w cache (Suc j) tokens
           else sub_results rt env w cache j tokens)
      | Inl e \<Rightarrow> sub_results rt env w cache j tokens)"

text \<open>
  The record made of a result of the resolver, and the record of an identifier after
  the merge: the record of the cache when there is one; else the record made of the
  result of the sub-task of the token with that identifier, when the resolver returned
  data (of the last such token when several share the identifier); else none.
\<close>

definition fetched_record :: "py_builtins \<Rightarrow> json \<Rightarrow> cartel_data" where
  "fetched_record rt res =
     [(''alt_value'', dget res ''alt_value'' JNull),
      (''cartel_avg'', dget res ''avg_price'' JNull),
      (''supply'', dget res ''supply'' JNull),
      (''alt_asset_id'', dget res ''alt_asset_id'' JNull),
      (''alt_range'',
         JStr (py_str rt (dget res ''lower_bound'' JNull) @ '' - ''
               @ py_str rt (dget res ''upper_bound'' JNull)))]"

definition merged_record ::
  "py_builtins \<Rightarrow> environ \<Rightarrow> world \<Rightarrow> cartel_data_map \<Rightarrow> json list \<Rightarrow> pykey
     \<Rightarrow> cartel_data option"
where
  "merged_record rt env w cache tokens k =
     (case cache k of
        Some c \<Rightarrow> Some c
      | None \<Rightarrow>
          (case filter (\<lambda>kr. fst kr = k \<and> snd kr \<noteq> JNull) (sub_results rt env w cache 0 tokens) of
             [] \<Rightarrow> None
           | r # rs \<Rightarrow> Some (fetched_record rt (snd (last (r # rs))))))"

text \<open>
  A token as the inventory source sends it: an object whose mint can be a key and whose
  attributes, when present, are a list of objects.
\<close>

definition wf_token :: "json \<Rightarrow> bool" where
  "wf_token token =
     (is_dict token
      \<and> (case py_hash (dget token ''mintAddress'' JNull) of Inl e \<Rightarrow> False | Inr k \<Rightarrow> True)
      \<and> (case py_iter (dget token ''attributes'' (JArr [])) of
            Inl e \<Rightarrow> False
          | Inr attrs \<Rightarrow> list_all is_dict attrs))"

section \<open>Example data\<close>

text \<open>
  A finite table of results of the Python builtins, enough for the examples below:
  \<^verbatim>\<open>float("9") == 9.0\<close>, \<^verbatim>\<open>f"{9.0:.1f}" == "9.0"\<close>, and dates counted in
  microseconds from 2024-03-01. Arguments outside the table are not used.
\<close>

definition example_builtins :: py_builtins where
  "example_builtins =
     \<lparr> float_of_str = map_of [(''9'', 9), (''9.0'', 9), (''10'', 10)],
       int_of_str = map_of [(''0'', 0), (''5'', 5), (''20'', 20), (''40'', 40)],
       format_1f = (\<lambda>r. if r = 9 then ''9.0'' else if r = 10 then ''10.0'' else ''0.0''),
       repr_other = (\<lambda>v. if v = JFloat 9 then ''9.0'' else if v = JFloat 120 then ''120.0''
                          else if v = JFloat 150 then ''150.0'' else ''0.0''),
       fromisoformat = map_of
         [(''2024-03-01'', 0), (''2024-03-02'', 86400000000),
          (''2024-02-25'', - 432000000000), (''2024-02-25T16:00:00'', - 374400000000)] \<rparr>"

definition example_env :: environ where
  "example_env =
     \<lparr> ALT_AUTH_TOKEN = Some ''token'', ALT_COOKIE = Some ''cookie'',
       POSTGRES_HOST = Some ''db'', POSTGRES_PORT = Some ''5432'', POSTGRES_DB = Some ''cartel'',
       POSTGRES_USER = Some ''reader'', POSTGRES_PASSWORD = Some ''secret'' \<rparr>"

definition cert_answer :: response where
  "cert_answer = Response 200 (Inr (JObj [(''data'', JObj [(''cert'', JObj [(''asset'',
      JObj [(''id'', JStr ''asset-1''), (''name'', JStr ''Charizard'')])])])]))"

definition details_answer :: response where
  "details_answer = Response 200 (Inr (JObj [(''data'', JObj [(''asset'', JObj
      [(''altValueInfo'', JObj [(''currentAltValue'', JInt 150),
          (''confidenceData'', JObj [(''currentConfidenceMetric'', JNull),
             (''currentErrorLowerBound'', JInt 120), (''currentErrorUpperBound'', JInt 180)])]),
       (''cardPops'', JArr
          [JObj [(''gradingCompany'', JStr ''PSA''), (''gradeNumber'', JStr ''10.0''), (''count'', JInt 9)],
           JObj [(''gradingCompany'', JStr ''PSA''), (''gradeNumber'', JStr ''9.0''), (''count'', JInt 50)]])])])]))"

definition trans_answer :: response where
  "trans_answer = Response 200 (Inr (JObj [(''data'', JObj [(''asset'', JObj
      [(''marketTransactions'', JArr
          [JObj [(''date'', JStr ''2024-03-02T09:00:00Z''), (''price'', JInt 110)],
           JObj [(''date'', JStr ''2024-03-01T10:00:00Z''), (''price'', JInt 130)]])])])]))"

definition example_client :: http_client where
  "example_client req =
     (case req of
        Cert c \<Rightarrow> Inr cert_answer
      | AssetDetails a g c \<Rightarrow> Inr details_answer
      | AssetMarketTransactions a g c \<Rightarrow> Inr trans_answer)"

definition client_down :: http_client where
  "client_down req = Inl RequestError"

definition client_503 :: http_client where
  "client_503 req = Inr (Response 503 (Inl ValueError))"

definition client_details_500 :: http_client where
  "client_details_500 req =
     (case req of
        Cert c \<Rightarrow> Inr cert_answer
      | AssetDetails a g c \<Rightarrow> Inr (Response 500 (Inl ValueError))
      | AssetMarketTransactions a g c \<Rightarrow> Inr trans_answer)"

text \<open>
  A page of three tokens: \<open>token_a\<close> is in the store, \<open>token_b\<close> is not and has no
  grade and no certificate, \<open>token_c\<close> is not and has all three attributes. The paged
  source has a page for one wallet, limit and offset only.
\<close>

definition attribute :: "string \<Rightarrow> json \<Rightarrow> json" where
  "attribute trait v = JObj [(''trait_type'', JStr trait), (''value'', v)]"

definition token_a :: json where
  "token_a = JObj
     [(''mintAddress'', JStr ''mintA''), (''name'', JStr ''Charizard''),
      (''image'', JStr ''a.png''),
      (''attributes'', JArr
         [attribute ''Grading Company'' (JStr ''PSA''), attribute ''The Grade'' (JStr ''10''),
          attribute ''GradeNum'' (JInt 10), attribute ''Grading ID'' (JStr ''11111111'')])]"

definition token_b :: json where
  "token_b = JObj
     [(''mintAddress'', JStr ''mintB''), (''name'', JStr ''Pikachu''),
      (''image'', JStr ''b.png''),
      (''attributes'', JArr [attribute ''Grading Company'' (JStr ''PSA'')])]"

definition token_c :: json where
  "token_c = JObj
     [(''mintAddress'', JStr ''mintC''), (''name'', JStr ''Mewtwo''),
      (''image'', JStr ''c.png''),
      (''attributes'', JArr
         [attribute ''Grading Company'' (JStr ''PSA''), attribute ''The Grade'' (JStr ''9''),
          attribute ''GradeNum'' (JInt 9), attribute ''Grading ID'' (JStr ''12345678'')])]"

definition row_a :: listing where
  "row_a =
     \<lparr> col_token_mint = ''mintA'', col_alt_value = JInt 100, col_avg_price = JInt 95,
       col_supply = JInt 50, col_alt_asset_id = JStr ''asset-a'',
       col_alt_value_lower_bound = JInt 90, col_alt_value_upper_bound = JInt 110,
       col_name = JStr ''Charizard Holo'', col_grade = JNull, col_grade_num = JInt 10,
       col_grading_id = JStr ''11111111'', col_img_url = JNull \<rparr>"

definition example_db :: database where
  "example_db mints = Inr [row_a]"

definition example_world :: world where
  "example_world = \<lparr> answers = (\<lambda>i. example_client), clock = (\<lambda>i. 10 * usec_per_day) \<rparr>"

definition example_inventory :: inventory where
  "example_inventory wallet_address limit offset = Inr (JArr [token_a, token_b])"

definition example_request :: params where
  "example_request = \<lparr> wallet = Some ''wallet1'', offset_param = None, limit_param = Some ''20'' \<rparr>"

definition paged_inventory :: inventory where
  "paged_inventory wallet_address limit offset =
     (if wallet_address = ''wallet1'' \<and> limit = 5 \<and> offset = 40
      then Inr (JArr [token_a, token_b]) else Inl RequestError)"

definition paged_request :: params where
  "paged_request = \<lparr> wallet = Some ''wallet1'', offset_param = Some ''40'', limit_param = Some ''5'' \<rparr>"

text \<open>
  More of the same: a configuration without the password of the store, one without the
  authorization token, a token whose cached valuation is 0, a server that knows of no
  sale, a world whose server answers the sub-task 1 only, and the entries the examples
  expect in the answer.
\<close>

definition unconfigured_env :: environ where
  "unconfigured_env = example_env \<lparr> POSTGRES_PASSWORD := None \<rparr>"

definition env_no_auth :: environ where
  "env_no_auth = example_env \<lparr> ALT_AUTH_TOKEN := None \<rparr>"

definition token_z :: json where
  "token_z = JObj
     [(''mintAddress'', JStr ''mintZ''), (''name'', JStr ''Eevee''),
      (''image'', JStr ''z.png''), (''attributes'', JArr [])]"

definition row_z :: listing where
  "row_z =
     \<lparr> col_token_mint = ''mintZ'', col_alt_value = JInt 0, col_avg_price = JInt 40,
       col_supply = JInt 7, col_alt_asset_id = JStr ''asset-z'',
       col_alt_value_lower_bound = JNull, col_alt_value_upper_bound = JNull,
       col_name = JNull, col_grade = JNull, col_grade_num = JNull,
       col_grading_id = JNull, col_img_url = JNull \<rparr>"

definition no_sales_answer :: response where
  "no_sales_answer = Response 200 (Inr (JObj [(''data'', JObj [(''asset'', JObj
      [(''marketTransactions'', JArr [])])])]))"

definition client_no_sales :: http_client where
  "client_no_sales req =
     (case req of
        Cert c \<Rightarrow> Inr cert_answer
      | AssetDetails a g c \<Rightarrow> Inr details_answer
      | AssetMarketTransactions a g c \<Rightarrow> Inr no_sales_answer)"

definition world_no_sales :: world where
  "world_no_sales = \<lparr> answers = (\<lambda>i. client_no_sales), clock = (\<lambda>i. 10 * usec_per_day) \<rparr>"

definition world_by_task :: world where
  "world_by_task =
     \<lparr> answers = (\<lambda>i. if i = 1 then example_client else client_down),
       clock = (\<lambda>i. 10 * usec_per_day) \<rparr>"

definition entry_a :: json where
  "entry_a = JObj
     [(''mint'', JStr ''mintA''), (''name'', JStr ''Charizard Holo''), (''grade'', JStr ''10''),
      (''grading_number'', JInt 10), (''supply'', JInt 50), (''img'', JStr ''a.png''),
      (''alt_value'', JInt 100), (''alt_range'', JStr ''90 - 110''), (''cartel_avg'', JInt 95),
      (''alt_link'', JStr ''https://alt.xyz/assets/asset-a'')]"

definition entry_b :: json where
  "entry_b = JObj
     [(''mint'', JStr ''mintB''), (''name'', JStr ''Pikachu''), (''grade'', JNull),
      (''grading_number'', JNull), (''supply'', JNull), (''img'', JStr ''b.png''),
      (''alt_value'', JStr ''N/A''), (''alt_range'', JStr ''N/A''), (''cartel_avg'', JStr ''N/A''),
      (''alt_link'', JStr ''N/A'')]"

definition entry_c :: json where
  "entry_c = JObj
     [(''mint'', JStr ''mintC''), (''name'', JStr ''Mewtwo''), (''grade'', JStr ''9''),
      (''grading_number'', JInt 9), (''supply'', JInt 50), (''img'', JStr ''c.png''),
      (''alt_value'', JInt 150), (''alt_range'', JStr ''120 - 180''),
      (''cartel_avg'', JFloat 120),
      (''alt_link'', JStr ''https://alt.xyz/assets/asset-1'')]"

definition entry_z :: json where
  "entry_z = JObj
     [(''mint'', JStr ''mintZ''), (''name'', JStr ''Eevee''), (''grade'', JNull),
      (''grading_number'', JNull), (''supply'', JInt 7), (''img'', JStr ''z.png''),
      (''alt_value'', JStr ''N/A''), (''alt_range'', JStr ''N/A''), (''cartel_avg'', JInt 40),
      (''alt_link'', JStr ''https://alt.xyz/assets/asset-z'')]"

definition entry_c_no_sales :: json where
  "entry_c_no_sales = JObj
     [(''mint'', JStr ''mintC''), (''name'', JStr ''Mewtwo''), (''grade'', JStr ''9''),
      (''grading_number'', JInt 9), (''supply'', JInt 50), (''img'', JStr ''c.png''),
      (''alt_value'', JInt 150), (''alt_range'', JStr ''120 - 180''),
      (''cartel_avg'', JStr ''N/A''),
      (''alt_link'', JStr ''https://alt.xyz/assets/asset-1'')]"

definition entry_c_no_auth :: json where
  "entry_c_no_auth = JObj
     [(''mint'', JStr ''mintC''), (''name'', JStr ''Mewtwo''), (''grade'', JStr ''9''),
      (''grading_number'', JInt 9), (''supply'', JNull), (''img'', JStr ''c.png''),
      (''alt_value'', JStr ''N/A''), (''alt_range'', JStr ''N/A''), (''cartel_avg'', JStr ''N/A''),
      (''alt_link'', JStr ''N/A'')]"

definition cache_a :: cartel_data_map where
  "cache_a = (\<lambda>k. None)(KStr ''mintA'' := Some (row_data example_builtins row_a))"

definition db_z :: database where
  "db_z mints = Inr [row_z]"

definition cache_z :: cartel_data_map where
  "cache_z = (\<lambda>k. None)(KStr ''mintZ'' := Some (row_data example_builtins row_z))"

definition fetched_c :: cartel_data where
  "fetched_c =
     [(''alt_value'', JInt 150), (''cartel_avg'', JFloat 120), (''supply'', JInt 50),
      (''alt_asset_id'', JStr ''asset-1''), (''alt_range'', JStr ''120 - 180'')]"

section \<open>Basic facts\<close>

lemma bnd_Inr [simp]: "bnd (Inr x) f = f x"
  by (simp add: bnd_def)

lemma bnd_Inl [simp]: "bnd (Inl e) f = Inl e"
  by (simp add: bnd_def)

lemma bnd_eq_Inr: "bnd m f = Inr r \<longleftrightarrow> (\<exists>x. m = Inr x \<and> f x = Inr r)"
  by (cases m) simp_all

lemma bnd_assoc: "bnd (bnd m f) g = bnd m (\<lambda>x. bnd (f x) g)"
  by (cases m) simp_all

lemma map_exc_Inr: "map f xs = map Inr ys \<Longrightarrow> map_exc f xs = Inr ys"
  by (induction xs arbitrary: ys) auto

lemma map_exc_eq_Inr:
  "map_exc f xs = Inr ys \<longleftrightarrow>
     length ys = length xs \<and> (\<forall>i<length xs. f (xs ! i) = Inr (ys ! i))"
proof (induction xs arbitrary: ys)
  case Nil
  then show ?case by auto
next
  case (Cons x xs)
  show ?case
  proof (cases ys)
    case Nil
    then show ?thesis by (auto simp: bnd_eq_Inr)
  next
    case (Cons y ys')
    then show ?thesis
      using Cons.IH [of ys'] by (auto simp: bnd_eq_Inr less_Suc_eq_0_disj)
  qed
qed

lemma map_exc_total: "list_all (\<lambda>x. \<exists>y. f x = Inr y) xs \<Longrightarrow> \<exists>ys. map_exc f xs = Inr ys"
  by (induction xs) auto

lemma map_of_present: "k \<in> set (map fst kvs) \<Longrightarrow> \<exists>v. map_of kvs k = Some v"
  by (induction kvs) auto

lemma sum_div_len_mean: "xs \<noteq> [] \<Longrightarrow> sum_div_len xs = Inr (mean xs)"
  by (simp add: sum_div_len_def py_div_def mean_def)

lemma dict_get_dget: "is_dict v \<Longrightarrow> dict_get v k d = Inr (dget v k d)"
  by (cases v) (simp_all add: is_dict_def)

section \<open>The price aggregator\<close>

text \<open>
  Claim C1. When the supply is a number of at most 3000 and the first four transactions
  carry prices, the average price is the arithmetic mean of the prices of the first
  \<open>min 4 n\<close> of the \<open>n\<close> transactions, in the order of the input; of no
  transaction it is 0.
\<close>

theorem avg_price_low_supply:
  assumes "num_of supply = Some s" and "s \<le> 3000"
    and "map (tx_price rt) (take 4 txs) = map Inr prices"
  shows "avg_price rt now (JArr txs) supply = Inr (mean prices)
         \<and> length prices = min 4 (length txs)
         \<and> (txs = [] \<longrightarrow> avg_price rt now (JArr txs) supply = Inr 0)"
proof -
  have len: "length prices = min 4 (length txs)"
    using arg_cong [OF assms(3), of length] by simp
  have gt: "py_gt supply 3000 = Inr False"
    using assms(1,2) by (simp add: py_gt_def)
  have "avg_price rt now (JArr txs) supply = Inr (mean prices)"
    using gt map_exc_Inr [OF assms(3)]
    by (cases "prices = []") (simp_all add: avg_price_def sum_div_len_mean mean_def)
  with len show ?thesis by (auto simp: mean_def)
qed

theorem avg_price_low_supply_witness:
  "num_of (JInt 500) = Some 500 \<and> (500::rat) \<le> 3000
   \<and> map (tx_price example_builtins)
       (take 4 [JObj [(''date'', JStr ''d1''), (''price'', JInt 10)],
                JObj [(''date'', JStr ''d2''), (''price'', JInt 12)],
                JObj [(''date'', JStr ''d3''), (''price'', JInt 14)],
                JObj [(''date'', JStr ''d4''), (''price'', JInt 16)],
                JObj [(''date'', JStr ''d5''), (''price'', JInt 18)]])
     = map Inr [10, 12, 14, 16]
   \<and> avg_price example_builtins 0
       (JArr [JObj [(''date'', JStr ''d1''), (''price'', JInt 10)],
                JObj [(''date'', JStr ''d2''), (''price'', JInt 12)],
                JObj [(''date'', JStr ''d3''), (''price'', JInt 14)],
                JObj [(''date'', JStr ''d4''), (''price'', JInt 16)],
                JObj [(''date'', JStr ''d5''), (''price'', JInt 18)]]) (JInt 500) = Inr 13"
proof -
  have p: "map (tx_price example_builtins)
       (take 4 [JObj [(''date'', JStr ''d1''), (''price'', JInt 10)],
                JObj [(''date'', JStr ''d2''), (''price'', JInt 12)],
                JObj [(''date'', JStr ''d3''), (''price'', JInt 14)],
                JObj [(''date'', JStr ''d4''), (''price'', JInt 16)],
                JObj [(''date'', JStr ''d5''), (''price'', JInt 18)]])
     = map Inr [10, 12, 14, 16]"
    by (simp add: tx_price_def)
  have n: "num_of (JInt 500) = Some 500" by simp
  have l: "(500::rat) \<le> 3000" by simp
  show ?thesis
    using avg_price_low_supply [OF n l p, of 0] p
    by (simp add: mean_def)
qed

subsection \<open>The loop over the transactions groups them by day\<close>


















section \<open>The valuation resolver\<close>



lemma get_asset_id_async_total: "\<exists>v. get_asset_id_async client cert_id = Inr v"
  by (simp add: get_asset_id_async_def try_except_def split: sum.splits)

lemma get_alt_data_async_total:
  "\<exists>r. get_alt_data_async rt env client now cert_id grade company = Inr r"
  using get_asset_id_async_total [of client cert_id]
  by (auto simp: get_alt_data_async_def try_except_def split: sum.splits)

lemma asset_id_failure:
  "get_asset_id_async client cert_id = Inr JNull \<Longrightarrow>
   get_alt_data_async rt env client now cert_id grade company = Inr JNull"
  by (simp add: get_alt_data_async_def)

lemma get_alt_data_try_shape:
  "get_alt_data_try rt client now asset_id grade company = Inr r \<Longrightarrow> r = JNull \<or> is_alt_data r"
  unfolding get_alt_data_try_def Let_def
  by (auto simp: bnd_eq_Inr is_alt_data_def split: if_splits)

lemma get_alt_data_async_shape:
  "get_alt_data_async rt env client now cert_id grade company = Inr r \<Longrightarrow> r = JNull \<or> is_alt_data r"
  unfolding get_alt_data_async_def
  by (auto simp: bnd_eq_Inr try_except_def split: if_splits sum.splits dest: get_alt_data_try_shape)

lemma example_resolution:
  "get_alt_data_async example_builtins example_env example_client 0
     (JStr ''12345678'') (JStr ''9'') (JStr ''PSA'') =
   Inr (JObj [(''alt_asset_id'', JStr ''asset-1''), (''alt_value'', JInt 150),
     (''avg_price'', JFloat 120), (''supply'', JInt 50), (''lower_bound'', JInt 120),
     (''upper_bound'', JInt 180), (''confidence'', JFloat 0)])"
  by (simp add: get_alt_data_async_def get_asset_id_async_def get_asset_id_try_def
      get_alt_data_try_def example_env_def example_client_def env_set_def cert_answer_def
      details_answer_def trans_answer_def try_except_def grade_1f_def example_builtins_def
      py_or_def avg_price_def py_gt_def tx_price_def sum_div_len_def py_div_def)

text \<open>
  Claim C4. The resolver never raises, and each way it can fail gives \<open>None\<close>: the
  identity lookup raising, answering with a status other than 200, with a body that is
  not JSON or that lacks the fields, or failing in any other way; a detail or
  transaction query answering with a status other than 200; any exception while the
  details are processed.
\<close>

theorem resolver_failures_give_nothing:
  "(\<exists>r. get_alt_data_async rt env client now cert_id grade company = Inr r)
   \<and> (client (Cert cert_id) = Inl e \<longrightarrow>
        get_alt_data_async rt env client now cert_id grade company = Inr JNull)
   \<and> (client (Cert cert_id) = Inr (Response st b) \<and> st \<noteq> 200 \<longrightarrow>
        get_alt_data_async rt env client now cert_id grade company = Inr JNull)
   \<and> (client (Cert cert_id) = Inr (Response 200 (Inl e)) \<longrightarrow>
        get_alt_data_async rt env client now cert_id grade company = Inr JNull)
   \<and> (client (Cert cert_id) = Inr (Response 200 (Inr (JObj kvs))) \<and> map_of kvs ''data'' = None \<longrightarrow>
        get_alt_data_async rt env client now cert_id grade company = Inr JNull)
   \<and> (get_asset_id_try client cert_id = Inl e \<longrightarrow>
        get_alt_data_async rt env client now cert_id grade company = Inr JNull)
   \<and> (get_asset_id_async client cert_id = Inr asset_id \<and> grade_1f rt grade = Inr g
        \<and> client (AssetDetails asset_id g company) = Inr (Response st1 b1)
        \<and> client (AssetMarketTransactions asset_id g company) = Inr (Response st2 b2)
        \<and> (st1 \<noteq> 200 \<or> st2 \<noteq> 200) \<longrightarrow>
        get_alt_data_async rt env client now cert_id grade company = Inr JNull)
   \<and> (get_asset_id_async client cert_id = Inr asset_id
        \<and> get_alt_data_try rt client now asset_id grade company = Inl e \<longrightarrow>
        get_alt_data_async rt env client now cert_id grade company = Inr JNull)"
proof -
  have a: "get_asset_id_try client cert_id = Inl e \<Longrightarrow> get_asset_id_async client cert_id = Inr JNull"
    for e by (simp add: get_asset_id_async_def try_except_def)
  have 1: "client (Cert cert_id) = Inl e \<Longrightarrow> get_asset_id_async client cert_id = Inr JNull"
    by (simp add: get_asset_id_async_def get_asset_id_try_def try_except_def)
  have 2: "client (Cert cert_id) = Inr (Response st b) \<and> st \<noteq> 200 \<Longrightarrow>
      get_asset_id_async client cert_id = Inr JNull"
    by (simp add: get_asset_id_async_def get_asset_id_try_def try_except_def)
  have 3: "client (Cert cert_id) = Inr (Response 200 (Inl e)) \<Longrightarrow>
      get_asset_id_async client cert_id = Inr JNull"
    by (simp add: get_asset_id_async_def get_asset_id_try_def try_except_def)
  have 4: "client (Cert cert_id) = Inr (Response 200 (Inr (JObj kvs))) \<and> map_of kvs ''data'' = None \<Longrightarrow>
      get_asset_id_async client cert_id = Inr JNull"
    by (simp add: get_asset_id_async_def get_asset_id_try_def try_except_def)
  have 5: "get_asset_id_async client cert_id = Inr asset_id \<and> grade_1f rt grade = Inr g
        \<and> client (AssetDetails asset_id g company) = Inr (Response st1 b1)
        \<and> client (AssetMarketTransactions asset_id g company) = Inr (Response st2 b2)
        \<and> (st1 \<noteq> 200 \<or> st2 \<noteq> 200) \<Longrightarrow>
        get_alt_data_async rt env client now cert_id grade company = Inr JNull"
    by (auto simp: get_alt_data_async_def get_alt_data_try_def try_except_def)
  have 6: "get_asset_id_async client cert_id = Inr asset_id
        \<and> get_alt_data_try rt client now asset_id grade company = Inl e \<Longrightarrow>
        get_alt_data_async rt env client now cert_id grade company = Inr JNull"
    by (auto simp: get_alt_data_async_def try_except_def)
  note t = get_alt_data_async_total [of rt env client now cert_id grade company]
  note f0 = asset_id_failure [OF a, of _ rt env now grade company]
  note f1 = asset_id_failure [OF 1, of rt env now grade company]
  note f2 = asset_id_failure [OF 2, of rt env now grade company]
  note f3 = asset_id_failure [OF 3, of rt env now grade company]
  note f4 = asset_id_failure [OF 4, of rt env now grade company]
  show ?thesis
    apply (intro conjI impI)
           apply (rule t)
          apply (erule f1)
         apply (erule f2)
        apply (erule f3)
       apply (erule f4)
      apply (erule f0)
     apply (erule 5)
    apply (erule 6)
    done
qed

theorem resolver_failures_give_nothing_witness:
  "get_alt_data_async example_builtins example_env client_down 0
     (JStr ''12345678'') (JStr ''9'') (JStr ''PSA'') = Inr JNull
   \<and> get_alt_data_async example_builtins example_env client_503 0
     (JStr ''12345678'') (JStr ''9'') (JStr ''PSA'') = Inr JNull
   \<and> get_alt_data_async example_builtins example_env client_details_500 0
     (JStr ''12345678'') (JStr ''9'') (JStr ''PSA'') = Inr JNull"
proof -
  have 1: "client_down (Cert (JStr ''12345678'')) = Inl RequestError"
    by (simp add: client_down_def)
  have 2: "client_503 (Cert (JStr ''12345678'')) = Inr (Response 503 (Inl ValueError)) \<and> (503::int) \<noteq> 200"
    by (simp add: client_503_def)
  have 3: "get_asset_id_async client_details_500 (JStr ''12345678'') = Inr (JStr ''asset-1'')
     \<and> grade_1f example_builtins (JStr ''9'') = Inr ''9.0''
     \<and> client_details_500 (AssetDetails (JStr ''asset-1'') ''9.0'' (JStr ''PSA''))
         = Inr (Response 500 (Inl ValueError))
     \<and> client_details_500 (AssetMarketTransactions (JStr ''asset-1'') ''9.0'' (JStr ''PSA''))
         = Inr (Response 200 (json_body trans_answer))
     \<and> ((500::int) \<noteq> 200 \<or> (200::int) \<noteq> 200)"
    by (simp add: client_details_500_def get_asset_id_async_def get_asset_id_try_def
        cert_answer_def try_except_def grade_1f_def example_builtins_def trans_answer_def)
  note a = resolver_failures_give_nothing [of example_builtins example_env client_down 0
        "JStr ''12345678''" "JStr ''9''" "JStr ''PSA''" RequestError,
        THEN conjunct2, THEN conjunct1, THEN mp, OF 1]
  note b = resolver_failures_give_nothing [of example_builtins example_env client_503 0
        "JStr ''12345678''" "JStr ''9''" "JStr ''PSA''" _ 503 "Inl ValueError",
        THEN conjunct2, THEN conjunct2, THEN conjunct1, THEN mp, OF 2]
  note c = resolver_failures_give_nothing [of example_builtins example_env client_details_500 0
        "JStr ''12345678''" "JStr ''9''" "JStr ''PSA''" _ _ _ _ "JStr ''asset-1''" "''9.0''"
        500 "Inl ValueError" 200 "json_body trans_answer",
        THEN conjunct2, THEN conjunct2, THEN conjunct2, THEN conjunct2, THEN conjunct2,
        THEN conjunct2, THEN conjunct1, THEN mp, OF 3]
  show ?thesis
    using a b c by simp
qed

section \<open>The orchestrator\<close>

subsection \<open>The sub-tasks and the merged map\<close>

lemma tokens_to_fetch_Cons:
  "tokens_to_fetch m (token # tokens) =
     bnd (token_key token) (\<lambda>k.
       if m k \<noteq> None then tokens_to_fetch m tokens
       else bnd (token_task token) (\<lambda>t.
            bnd (tokens_to_fetch m tokens) (\<lambda>rest. Inr ((k, t) # rest))))"
  by (simp add: token_key_def token_task_def bnd_def split: sum.splits)

lemma tokens_to_fetch_absent:
  "tokens_to_fetch m tokens = Inr plan \<Longrightarrow> (k, t) \<in> set plan \<Longrightarrow> m k = None"
proof (induction tokens arbitrary: plan)
  case Nil
  then show ?case by simp
next
  case (Cons token tokens)
  then show ?case
    unfolding tokens_to_fetch_Cons
    by (auto simp: bnd_eq_Inr split: if_splits)
qed

lemma tokens_to_fetch_source:
  "tokens_to_fetch m tokens = Inr plan \<Longrightarrow> (k, t) \<in> set plan \<Longrightarrow>
   \<exists>token \<in> set tokens. token_key token = Inr k \<and> token_task token = Inr t"
proof (induction tokens arbitrary: plan)
  case Nil
  then show ?case by simp
next
  case (Cons token tokens)
  then show ?case
    unfolding tokens_to_fetch_Cons
    by (fastforce simp: bnd_eq_Inr split: if_splits)
qed

lemma tokens_to_fetch_all:
  "tokens_to_fetch (\<lambda>k. None) tokens = Inr plan \<Longrightarrow> length plan = length tokens"
proof (induction tokens arbitrary: plan)
  case Nil
  then show ?case by simp
next
  case (Cons token tokens)
  then show ?case
    unfolding tokens_to_fetch_Cons by (auto simp: bnd_eq_Inr)
qed

lemma gather_results:
  "gather rt env w i ts = Inr rs \<Longrightarrow>
   length rs = length ts \<and> (\<forall>j<length ts. run_task rt env w (i + j) (ts ! j) = Inr (rs ! j))"
proof (induction ts arbitrary: i rs)
  case Nil
  then show ?case by simp
next
  case (Cons t ts)
  then obtain r rest where r: "run_task rt env w i t = Inr r"
    and g: "gather rt env w (Suc i) ts = Inr rest" and rs: "rs = r # rest"
    by (auto simp: bnd_eq_Inr)
  from Cons.IH [OF g] r show ?case
    by (auto simp: rs less_Suc_eq_0_disj)
qed

lemma gather_zip:
  assumes "gather rt env w i (map snd plan) = Inr rs"
    and "(k, res) \<in> set (zip (map fst plan) rs)"
  shows "\<exists>j t. (k, t) \<in> set plan \<and> run_task rt env w j t = Inr res"
proof -
  from gather_results [OF assms(1)]
  have len: "length rs = length plan"
    and run: "\<forall>j<length plan. run_task rt env w (i + j) (snd (plan ! j)) = Inr (rs ! j)"
    by auto
  from assms(2) obtain j where j: "j < length plan" "k = fst (plan ! j)" "res = rs ! j"
    using len by (auto simp: in_set_zip)
  then have "(k, snd (plan ! j)) \<in> set plan"
    by (metis nth_mem prod.collapse)
  with run j show ?thesis by blast
qed

lemma store_results_unchanged:
  "store_results rt m kr = Inr m' \<Longrightarrow> (\<And>res. (k, res) \<in> set kr \<Longrightarrow> \<not> truthy res) \<Longrightarrow>
   m' k = m k"
proof (induction kr arbitrary: m)
  case Nil
  then show ?case by simp
next
  case (Cons a kr)
  obtain k' res where a: "a = (k', res)" by (cases a)
  show ?case
  proof (cases "truthy res")
    case True
    with Cons.prems(1) obtain c where c: "fetched_data rt res = Inr c"
      and s: "store_results rt (m(k' := Some c)) kr = Inr m'"
      by (auto simp: a bnd_eq_Inr)
    have "k' \<noteq> k" using Cons.prems(2) [of res] True by (auto simp: a)
    moreover have "m' k = (m(k' := Some c)) k"
      using Cons.IH [OF s] Cons.prems(2) by simp
    ultimately show ?thesis by simp
  next
    case False
    with Cons.prems(1) have s: "store_results rt m kr = Inr m'" by (simp add: a)
    show ?thesis using Cons.IH [OF s] Cons.prems(2) by simp
  qed
qed

lemma merged_mapE:
  assumes "merged_map rt env db w tokens = Inr m"
  obtains cache plan rs where "lookup_page rt env db tokens = Inr cache"
    and "tokens_to_fetch cache tokens = Inr plan"
    and "gather rt env w 0 (map snd plan) = Inr rs"
    and "store_results rt cache (zip (map fst plan) rs) = Inr m"
  using assms unfolding merged_map_def by (auto simp: bnd_eq_Inr)

lemma enrichE:
  assumes "enrich rt env db w tokens = Inr out"
  obtains m where "merged_map rt env db w tokens = Inr m"
    and "length out = length tokens"
    and "\<And>i. i < length tokens \<Longrightarrow> format_token rt m (tokens ! i) = Inr (out ! i)"
  using assms unfolding enrich_def by (auto simp: bnd_eq_Inr map_exc_eq_Inr)

lemma merged_cached:
  assumes "merged_map rt env db w tokens = Inr m"
    and "lookup_page rt env db tokens = Inr cache" and "cache k = Some c"
  shows "m k = Some c"
proof -
  from assms(1) obtain cache' plan rs where l: "lookup_page rt env db tokens = Inr cache'"
    and p: "tokens_to_fetch cache' tokens = Inr plan"
    and s: "store_results rt cache' (zip (map fst plan) rs) = Inr m"
    by (rule merged_mapE)
  from l assms(2) have [simp]: "cache' = cache" by simp
  have "\<not> truthy res" if "(k, res) \<in> set (zip (map fst plan) rs)" for res
  proof -
    from that have "k \<in> set (map fst plan)" by (rule set_zip_leftD)
    then obtain t where "(k, t) \<in> set plan" by auto
    from tokens_to_fetch_absent [OF p this] assms(3) show ?thesis by simp
  qed
  from store_results_unchanged [OF s this] assms(3) show ?thesis by simp
qed

lemma merged_no_result:
  assumes "merged_map rt env db w tokens = Inr m"
    and "lookup_page rt env db tokens = Inr cache" and "cache k = None"
    and "\<And>token j t res. token \<in> set tokens \<Longrightarrow> token_key token = Inr k \<Longrightarrow>
           token_task token = Inr t \<Longrightarrow> run_task rt env w j t = Inr res \<Longrightarrow> \<not> truthy res"
  shows "m k = None"
proof -
  from assms(1) obtain cache' plan rs where l: "lookup_page rt env db tokens = Inr cache'"
    and p: "tokens_to_fetch cache' tokens = Inr plan"
    and g: "gather rt env w 0 (map snd plan) = Inr rs"
    and s: "store_results rt cache' (zip (map fst plan) rs) = Inr m"
    by (rule merged_mapE)
  from l assms(2) have [simp]: "cache' = cache" by simp
  have "\<not> truthy res" if "(k, res) \<in> set (zip (map fst plan) rs)" for res
  proof -
    from gather_zip [OF g that] obtain j t where t: "(k, t) \<in> set plan"
      and r: "run_task rt env w j t = Inr res" by blast
    from tokens_to_fetch_source [OF p t] obtain token where "token \<in> set tokens"
      "token_key token = Inr k" "token_task token = Inr t" by blast
    with r assms(4) show ?thesis by blast
  qed
  from store_results_unchanged [OF s this] assms(3) show ?thesis by simp
qed

subsection \<open>The merged map, record by record\<close>

lemma shown_field_shown: "shown (c_get (c_data_of m k) f) = field_shown (m k) f"
  by (simp add: shown_def py_or_def c_get_def c_data_of_def field_shown_def split: option.splits)

lemma fetched_for_run:
  "token_task token = Inr t \<Longrightarrow> run_task rt env w j t = Inr r \<Longrightarrow> fetched_for rt env w j token = r"
  by (cases t) (simp_all add: fetched_for_def run_task_def)

lemma plan_sub_results:
  "tokens_to_fetch cache tokens = Inr plan \<Longrightarrow> gather rt env w j (map snd plan) = Inr rs \<Longrightarrow>
   zip (map fst plan) rs = sub_results rt env w cache j tokens"
proof (induction tokens arbitrary: plan rs j)
  case Nil
  then show ?case by simp
next
  case (Cons token tokens)
  from Cons.prems(1) obtain k where k: "token_key token = Inr k"
    and rest: "(if cache k \<noteq> None then tokens_to_fetch cache tokens
       else bnd (token_task token) (\<lambda>t.
            bnd (tokens_to_fetch cache tokens) (\<lambda>rest. Inr ((k, t) # rest)))) = Inr plan"
    unfolding tokens_to_fetch_Cons by (auto simp: bnd_eq_Inr)
  show ?case
  proof (cases "cache k = None")
    case False
    with rest have "tokens_to_fetch cache tokens = Inr plan" by simp
    from Cons.IH [OF this Cons.prems(2)] show ?thesis
      using k False by auto
  next
    case True
    with rest obtain t rest' where t: "token_task token = Inr t"
      and p: "tokens_to_fetch cache tokens = Inr rest'" and plan: "plan = (k, t) # rest'"
      by (auto simp: bnd_eq_Inr)
    from Cons.prems(2) obtain r rs' where r: "run_task rt env w j t = Inr r"
      and g: "gather rt env w (Suc j) (map snd rest') = Inr rs'" and rs: "rs = r # rs'"
      by (auto simp: plan bnd_eq_Inr)
    from Cons.IH [OF p g] fetched_for_run [OF t r] show ?thesis
      using k True by (simp add: plan rs)
  qed
qed

lemma is_alt_data_truthy: "is_alt_data r \<Longrightarrow> truthy r \<and> r \<noteq> JNull"
  by (cases r) (auto simp: is_alt_data_def)

lemma fetched_data_record: "fetched_data rt res = Inr c \<Longrightarrow> c = fetched_record rt res"
  by (cases res) (auto simp: fetched_data_def fetched_record_def bnd_eq_Inr split: option.splits)

lemma store_results_last:
  "store_results rt m kr = Inr m' \<Longrightarrow>
   m' k = (case filter (\<lambda>p. fst p = k \<and> truthy (snd p)) kr of
             [] \<Rightarrow> m k
           | r # rs \<Rightarrow> Some (fetched_record rt (snd (last (r # rs)))))"
proof (induction kr arbitrary: m)
  case Nil
  then show ?case by simp
next
  case (Cons a kr)
  obtain k' res where a: "a = (k', res)" by (cases a)
  show ?case
  proof (cases "truthy res")
    case True
    with Cons.prems obtain c where c: "fetched_data rt res = Inr c"
      and s: "store_results rt (m(k' := Some c)) kr = Inr m'"
      by (auto simp: a bnd_eq_Inr)
    from fetched_data_record [OF c] Cons.IH [OF s] True show ?thesis
      by (cases "k' = k") (auto simp: a split: list.splits)
  next
    case False
    with Cons.prems have s: "store_results rt m kr = Inr m'" by (simp add: a)
    from Cons.IH [OF s] False show ?thesis by (simp add: a)
  qed
qed

subsection \<open>One entry of the answer\<close>

lemma format_token_fields:
  assumes "format_token rt m token = Inr out"
  shows "\<exists>mint k. dict_get token ''mintAddress'' JNull = Inr mint \<and> py_hash mint = Inr k
     \<and> dget out ''mint'' JNull = mint
     \<and> dget out ''supply'' JNull = c_get (c_data_of m k) ''supply''
     \<and> dget out ''alt_value'' JNull = shown (c_get (c_data_of m k) ''alt_value'')
     \<and> dget out ''alt_range'' JNull = shown (c_get (c_data_of m k) ''alt_range'')
     \<and> dget out ''cartel_avg'' JNull = shown (c_get (c_data_of m k) ''cartel_avg'')
     \<and> dget out ''alt_link'' JNull =
         shown (if truthy (c_get (c_data_of m k) ''alt_asset_id'')
                then JStr (''https://alt.xyz/assets/''
                       @ py_str rt (c_get (c_data_of m k) ''alt_asset_id''))
                else JNull)"
  using assms
  unfolding format_token_def Let_def
  by (auto simp: bnd_eq_Inr c_data_of_def shown_def)

lemma format_token_key:
  "format_token rt m token = Inr out \<Longrightarrow> \<exists>k. token_key token = Inr k"
  unfolding format_token_def token_key_def Let_def
  by (auto simp: bnd_eq_Inr)

lemma format_token_cong:
  assumes "token_key token = Inr k" and "m k = m' k"
  shows "format_token rt m token = format_token rt m' token"
  using assms
  unfolding format_token_def token_key_def Let_def bnd_def
  by (auto split: sum.splits)

lemma format_token_at_key:
  assumes "format_token rt m token = Inr out" and "token_key token = Inr k"
  shows "dict_get token ''mintAddress'' JNull = Inr (dget out ''mint'' JNull)"
    and "dget out ''supply'' JNull = c_get (c_data_of m k) ''supply''"
    and "dget out ''alt_value'' JNull = shown (c_get (c_data_of m k) ''alt_value'')"
    and "dget out ''alt_range'' JNull = shown (c_get (c_data_of m k) ''alt_range'')"
    and "dget out ''cartel_avg'' JNull = shown (c_get (c_data_of m k) ''cartel_avg'')"
  using format_token_fields [OF assms(1)] assms(2)
  by (auto simp: token_key_def)

lemma format_token_no_record:
  assumes "format_token rt m token = Inr out" and "token_key token = Inr k" and "m k = None"
  shows "valuation_unavailable out"
  using format_token_at_key [OF assms(1,2)] assms(3)
  by (simp add: valuation_unavailable_def c_data_of_def c_get_def shown_def py_or_def)

subsection \<open>A well-formed page is always answered\<close>

lemma cache_lookup_total: "\<exists>c. cache_lookup rt env db mints = Inr c"
  by (simp add: cache_lookup_def try_except_def split: sum.splits)

lemma get_attr_loop_total: "list_all is_dict attrs \<Longrightarrow> \<exists>v. get_attr_loop attrs trait = Inr v"
  by (induction attrs) (auto simp: dict_get_dget)

lemma wf_token_key: "wf_token token \<Longrightarrow> \<exists>k. token_key token = Inr k"
  by (auto simp: wf_token_def token_key_def dict_get_dget split: sum.splits)

lemma wf_token_task: "wf_token token \<Longrightarrow> \<exists>t. token_task token = Inr t"
proof -
  assume w: "wf_token token"
  then obtain attrs where a: "py_iter (dget token ''attributes'' (JArr [])) = Inr attrs"
    and d: "list_all is_dict attrs" and t: "is_dict token"
    by (auto simp: wf_token_def split: sum.splits)
  from get_attr_loop_total [OF d] obtain c g co where
    "get_attr_loop attrs ''Grading ID'' = Inr c" "get_attr_loop attrs ''The Grade'' = Inr g"
    "get_attr_loop attrs ''Grading Company'' = Inr co" by metis
  then show ?thesis
    using a t by (simp add: token_task_def get_attr_def dict_get_dget)
qed

lemma wf_format_token: "wf_token token \<Longrightarrow> \<exists>out. format_token rt m token = Inr out"
proof -
  assume w: "wf_token token"
  then obtain attrs k where a: "py_iter (dget token ''attributes'' (JArr [])) = Inr attrs"
    and d: "list_all is_dict attrs" and t: "is_dict token"
    and k: "py_hash (dget token ''mintAddress'' JNull) = Inr k"
    by (auto simp: wf_token_def split: sum.splits)
  from get_attr_loop_total [OF d] obtain c g co where
    "get_attr_loop attrs ''Grading ID'' = Inr c" "get_attr_loop attrs ''The Grade'' = Inr g"
    "get_attr_loop attrs ''GradeNum'' = Inr co" by metis
  then show ?thesis
    using a t k by (simp add: format_token_def get_attr_def dict_get_dget Let_def)
qed

lemma token_mints_of_total: "list_all wf_token tokens \<Longrightarrow> \<exists>ms. token_mints_of tokens = Inr ms"
  by (induction tokens) (auto simp: wf_token_def dict_get_dget)

lemma lookup_page_total: "list_all wf_token tokens \<Longrightarrow> \<exists>c. lookup_page rt env db tokens = Inr c"
  using token_mints_of_total [of tokens] cache_lookup_total [of rt env db]
  by (auto simp: lookup_page_def)

lemma tokens_to_fetch_total:
  "list_all wf_token tokens \<Longrightarrow> \<exists>plan. tokens_to_fetch m tokens = Inr plan"
proof (induction tokens)
  case Nil
  then show ?case by simp
next
  case (Cons token tokens)
  from Cons.prems have "wf_token token" "list_all wf_token tokens" by simp_all
  with Cons.IH obtain plan k t where "tokens_to_fetch m tokens = Inr plan"
    "token_key token = Inr k" "token_task token = Inr t"
    using wf_token_key wf_token_task by blast
  then show ?case
    unfolding tokens_to_fetch_Cons by simp
qed

lemma run_task_shape: "\<exists>r. run_task rt env w i t = Inr r \<and> (r = JNull \<or> is_alt_data r)"
proof (cases t)
  case (Fetch c g co)
  from get_alt_data_async_total [of rt env "answers w i" "clock w i" c g co]
  obtain r where r: "get_alt_data_async rt env (answers w i) (clock w i) c g co = Inr r" ..
  with get_alt_data_async_shape [OF r] show ?thesis
    by (simp add: run_task_def Fetch)
next
  case Sleep
  then show ?thesis by (simp add: run_task_def)
qed

lemma gather_total:
  "\<exists>rs. gather rt env w i ts = Inr rs \<and> list_all (\<lambda>r. r = JNull \<or> is_alt_data r) rs"
proof (induction ts arbitrary: i)
  case Nil
  then show ?case by simp
next
  case (Cons t ts)
  from run_task_shape [of rt env w i t] obtain r where
    "run_task rt env w i t = Inr r" "r = JNull \<or> is_alt_data r" by blast
  moreover from Cons [of "Suc i"] obtain rs where
    "gather rt env w (Suc i) ts = Inr rs" "list_all (\<lambda>r. r = JNull \<or> is_alt_data r) rs" by blast
  ultimately show ?case by simp
qed

lemma fetched_data_total: "is_alt_data r \<Longrightarrow> \<exists>c. fetched_data rt r = Inr c"
proof -
  assume "is_alt_data r"
  then obtain kvs where r: "r = JObj kvs"
    and k: "map fst kvs = [''alt_asset_id'', ''alt_value'', ''avg_price'', ''supply'',
                     ''lower_bound'', ''upper_bound'', ''confidence'']"
    by (auto simp: is_alt_data_def split: json.splits)
  have "\<exists>v. map_of kvs x = Some v"
    if "x \<in> set [''alt_asset_id'', ''alt_value'', ''avg_price'', ''supply'',
                     ''lower_bound'', ''upper_bound'', ''confidence'']" for x
    using that map_of_present [of x kvs] unfolding k by blast
  then obtain a b c d e f where "map_of kvs ''alt_value'' = Some a"
    "map_of kvs ''avg_price'' = Some b" "map_of kvs ''supply'' = Some c"
    "map_of kvs ''alt_asset_id'' = Some d" "map_of kvs ''lower_bound'' = Some e"
    "map_of kvs ''upper_bound'' = Some f"
    by (metis list.set_intros)
  then show ?thesis by (simp add: fetched_data_def r)
qed

lemma store_results_total:
  "list_all (\<lambda>r. r = JNull \<or> is_alt_data r) (map snd kr) \<Longrightarrow> \<exists>m'. store_results rt m kr = Inr m'"
proof (induction kr arbitrary: m)
  case Nil
  then show ?case by simp
next
  case (Cons a kr)
  obtain k res where a: "a = (k, res)" by (cases a)
  from Cons.prems have rest: "list_all (\<lambda>r. r = JNull \<or> is_alt_data r) (map snd kr)"
    and res: "res = JNull \<or> is_alt_data res" by (simp_all add: a)
  show ?case
  proof (cases "truthy res")
    case True
    with res have "is_alt_data res" by auto
    from fetched_data_total [OF this] obtain c where c: "fetched_data rt res = Inr c" ..
    from Cons.IH [OF rest] obtain m' where
      s: "store_results rt (m(k := Some c)) kr = Inr m'" by blast
    have "store_results rt m (a # kr) = Inr m'"
      using True c s by (simp add: a)
    then show ?thesis by blast
  next
    case False
    with Cons.IH [OF rest, of m] show ?thesis by (simp add: a)
  qed
qed

lemma merged_map_total:
  assumes "list_all wf_token tokens"
  shows "\<exists>m. merged_map rt env db w tokens = Inr m"
proof -
  from lookup_page_total [OF assms] obtain cache where
    c: "lookup_page rt env db tokens = Inr cache" ..
  from tokens_to_fetch_total [OF assms] obtain plan where
    p: "tokens_to_fetch cache tokens = Inr plan" ..
  from gather_total [of rt env w 0 "map snd plan"] obtain rs where
    g: "gather rt env w 0 (map snd plan) = Inr rs"
    and sh: "list_all (\<lambda>r. r = JNull \<or> is_alt_data r) rs" by blast
  from gather_results [OF g] have len: "length rs = length plan" by simp
  then have "map snd (zip (map fst plan) rs) = rs" by simp
  with sh store_results_total [of "zip (map fst plan) rs" rt cache] obtain m where
    "store_results rt cache (zip (map fst plan) rs) = Inr m" by auto
  with c p g show ?thesis by (simp add: merged_map_def)
qed

lemma enrich_total:
  assumes "list_all wf_token tokens"
  shows "\<exists>out. enrich rt env db w tokens = Inr out"
proof -
  from merged_map_total [OF assms] obtain m where m: "merged_map rt env db w tokens = Inr m" ..
  have "list_all (\<lambda>x. \<exists>y. format_token rt m x = Inr y) tokens"
    using assms wf_format_token by (auto simp: list_all_iff)
  from map_exc_total [OF this] m show ?thesis by (simp add: enrich_def)
qed

lemma sub_results_shape:
  "list_all (\<lambda>kr. snd kr = JNull \<or> is_alt_data (snd kr)) (sub_results rt env w cache j tokens)"
proof (induction tokens arbitrary: j)
  case Nil
  then show ?case by simp
next
  case (Cons token tokens)
  have "fetched_for rt env w j token = JNull \<or> is_alt_data (fetched_for rt env w j token)"
    using get_alt_data_async_shape
    by (auto simp: fetched_for_def split: sum.splits task.splits)
  with Cons show ?case
    by (simp split: sum.splits)
qed

lemma merged_is_merged_record:
  assumes "lookup_page rt env db tokens = Inr cache"
    and "merged_map rt env db w tokens = Inr m"
  shows "m k = merged_record rt env w cache tokens k"
proof -
  from assms(2) obtain cache' plan rs where l: "lookup_page rt env db tokens = Inr cache'"
    and p: "tokens_to_fetch cache' tokens = Inr plan"
    and g: "gather rt env w 0 (map snd plan) = Inr rs"
    and s: "store_results rt cache' (zip (map fst plan) rs) = Inr m"
    by (rule merged_mapE)
  from l assms(1) have c: "cache' = cache" by simp
  from s have s': "store_results rt cache (zip (map fst plan) rs) = Inr m"
    by (simp add: c)
  let ?sr = "sub_results rt env w cache 0 tokens"
  have z: "zip (map fst plan) rs = ?sr"
    using plan_sub_results [OF p g] by (simp add: c)
  have "truthy (snd p) = (snd p \<noteq> JNull)" if "p \<in> set ?sr" for p
    using sub_results_shape [of rt env w cache 0 tokens] that is_alt_data_truthy [of "snd p"]
    by (auto simp: list_all_iff)
  then have f: "filter (\<lambda>p. fst p = k \<and> truthy (snd p)) ?sr
      = filter (\<lambda>p. fst p = k \<and> snd p \<noteq> JNull) ?sr"
    by (intro filter_cong) auto
  show ?thesis
  proof (cases "cache k")
    case (Some d)
    from merged_cached [OF assms(2,1) Some] show ?thesis
      by (simp add: merged_record_def Some)
  next
    case None
    from store_results_last [OF s', of k] show ?thesis
      by (simp add: z f merged_record_def None split: list.splits)
  qed
qed

subsection \<open>The store that fails\<close>

lemma cache_lookup_down: "cache_lookup rt env (\<lambda>mints. Inl e) mints = Inr (\<lambda>k. None)"
  by (simp add: cache_lookup_def try_except_def)

lemma cache_lookup_no_rows: "cache_lookup rt env (\<lambda>mints. Inr []) mints = Inr (\<lambda>k. None)"
  by (simp add: cache_lookup_def try_except_def)

lemma cache_lookup_unconfigured:
  "\<not> list_all env_set
       [POSTGRES_HOST env, POSTGRES_PORT env, POSTGRES_DB env, POSTGRES_USER env,
        POSTGRES_PASSWORD env] \<Longrightarrow>
   cache_lookup rt env db mints = Inr (\<lambda>k. None)"
  by (auto simp: cache_lookup_def)

lemma main_same_cache:
  assumes "\<And>mints. cache_lookup rt env db mints = cache_lookup rt env db' mints"
  shows "main rt env me db w req = main rt env me db' w req"
proof -
  from assms have eq: "cache_lookup rt env db = cache_lookup rt env db'"
    by (intro ext)
  show ?thesis
    by (simp only: main_def main_try_def enrich_def merged_map_def lookup_page_def eq)
qed

subsection \<open>The examples, evaluated\<close>

lemmas run_defs =
  main_def main_try_def enrich_def merged_map_def lookup_page_def cache_lookup_def
  try_except_def format_token_def get_attr_def token_key_def token_task_def run_task_def
  fetched_data_def c_get_def py_or_def row_data_def int_param_def env_set_def
  get_alt_data_async_def get_asset_id_async_def get_asset_id_try_def get_alt_data_try_def
  grade_1f_def avg_price_def py_gt_def tx_price_def tx_date_def split_T_def sum_div_len_def
  py_div_def day_of_def usec_per_day_def str_int_def digits.simps

lemmas example_defs =
  example_builtins_def example_env_def cert_answer_def details_answer_def trans_answer_def
  example_client_def attribute_def token_a_def token_b_def token_c_def row_a_def
  example_db_def example_world_def example_inventory_def example_request_def
  paged_inventory_def paged_request_def
  unconfigured_env_def env_no_auth_def token_z_def row_z_def no_sales_answer_def
  client_no_sales_def world_no_sales_def entry_a_def entry_b_def entry_c_def entry_z_def
  entry_c_no_sales_def entry_c_no_auth_def fetched_c_def

lemma example_lookup:
  "lookup_page example_builtins example_env example_db [token_a, token_b, token_c] = Inr cache_a"
  by (simp add: lookup_page_def cache_lookup_def try_except_def env_set_def
      example_env_def env_no_auth_def example_db_def token_a_def token_b_def token_c_def
      cache_a_def row_a_def)

lemma example_lookup_ab:
  "lookup_page example_builtins example_env example_db [token_a, token_b] = Inr cache_a"
  by (simp add: lookup_page_def cache_lookup_def try_except_def env_set_def
      example_env_def env_no_auth_def example_db_def token_a_def token_b_def token_c_def
      cache_a_def row_a_def)

lemma example_lookup_no_auth:
  "lookup_page example_builtins env_no_auth example_db [token_a, token_b, token_c] = Inr cache_a"
  by (simp add: lookup_page_def cache_lookup_def try_except_def env_set_def
      example_env_def env_no_auth_def example_db_def token_a_def token_b_def token_c_def
      cache_a_def row_a_def)

lemma example_merged:
  "merged_map example_builtins example_env example_db example_world [token_a, token_b, token_c]
     = Inr (cache_a(KStr ''mintC'' := Some fetched_c))"
  by (simp add: run_defs example_defs cache_a_def)

lemma example_enrich:
  "enrich example_builtins example_env example_db example_world [token_a, token_b, token_c]
     = Inr [entry_a, entry_b, entry_c]"
  by code_simp

lemma example_enrich_ab:
  "enrich example_builtins example_env example_db example_world [token_a, token_b]
     = Inr [entry_a, entry_b]"
  by code_simp

lemma example_enrich_no_auth:
  "enrich example_builtins env_no_auth example_db example_world [token_a, token_b, token_c]
     = Inr [entry_a, entry_b, entry_c_no_auth]"
  by code_simp

lemma example_keys:
  "token_key token_a = Inr (KStr ''mintA'')" "token_key token_b = Inr (KStr ''mintB'')"
  "token_key token_c = Inr (KStr ''mintC'')"
  by code_simp+

lemma example_wf: "list_all wf_token [token_a, token_b]"
  by code_simp

subsection \<open>The claims\<close>

text \<open>
  Claim C5, as stated, fails: the valuation of the cache is not always the one shown.
  The token of the example is in the cache with the valuation 0; no sub-task is made
  for it, and its entry shows "N/A" for the valuation.
\<close>

theorem cached_zero_shown_unavailable:
  "lookup_page example_builtins example_env db_z [token_z] = Inr cache_z
   \<and> token_key token_z = Inr (KStr ''mintZ'')
   \<and> cache_z (KStr ''mintZ'') = Some (row_data example_builtins row_z)
   \<and> c_get (row_data example_builtins row_z) ''alt_value'' = JInt 0
   \<and> tokens_to_fetch cache_z [token_z] = Inr []
   \<and> enrich example_builtins example_env db_z example_world [token_z] = Inr [entry_z]
   \<and> dget entry_z ''alt_value'' JNull = JStr ''N/A''"
proof -
  have l: "lookup_page example_builtins example_env db_z [token_z] = Inr cache_z"
    by (simp add: lookup_page_def cache_lookup_def try_except_def env_set_def
        example_env_def db_z_def token_z_def cache_z_def row_z_def)
  have k: "token_key token_z = Inr (KStr ''mintZ'')"
    by code_simp
  have c: "cache_z (KStr ''mintZ'') = Some (row_data example_builtins row_z)"
    by (simp add: cache_z_def)
  have v: "c_get (row_data example_builtins row_z) ''alt_value'' = JInt 0"
    by code_simp
  have t: "tokens_to_fetch cache_z [token_z] = Inr []"
    by code_simp
  have e: "enrich example_builtins example_env db_z example_world [token_z] = Inr [entry_z]"
    by code_simp
  have d: "dget entry_z ''alt_value'' JNull = JStr ''N/A''"
    by code_simp
  from l k c v t e d show ?thesis
    by (simp only: simp_thms)
qed

text \<open>
  Claim C5, amended. A token whose identifier is in the result of the cache lookup is
  handed to no sub-task; its record in the merged map is the record of the cache,
  whatever the sub-tasks of the other tokens return; its entry in the answer is the one
  computed from the cache alone. Each valuation field of the entry is the value of the
  cached record when that value is true in the sense of Python (not \<open>None\<close>, not
  zero, not empty) and "N/A" otherwise; the supply is that of the cached record as it
  is.
\<close>

theorem cached_token_not_fetched:
  assumes "lookup_page rt env db tokens = Inr cache"
    and "enrich rt env db w tokens = Inr out"
    and "i < length tokens" and "token_key (tokens ! i) = Inr k" and "cache k = Some c"
  shows "(\<exists>plan. tokens_to_fetch cache tokens = Inr plan \<and> k \<notin> fst ` set plan)
     \<and> (\<exists>m. merged_map rt env db w tokens = Inr m \<and> m k = Some c)
     \<and> format_token rt cache (tokens ! i) = Inr (out ! i)
     \<and> dget (out ! i) ''alt_value'' JNull = field_shown (Some c) ''alt_value''
     \<and> dget (out ! i) ''cartel_avg'' JNull = field_shown (Some c) ''cartel_avg''
     \<and> dget (out ! i) ''alt_range'' JNull = field_shown (Some c) ''alt_range''
     \<and> dget (out ! i) ''supply'' JNull = c_get c ''supply''"
proof -
  from assms(2) obtain m where m: "merged_map rt env db w tokens = Inr m"
    and f: "format_token rt m (tokens ! i) = Inr (out ! i)"
    using assms(3) by (auto elim: enrichE)
  from m obtain cache' plan where l: "lookup_page rt env db tokens = Inr cache'"
    and p: "tokens_to_fetch cache' tokens = Inr plan"
    by (rule merged_mapE)
  from l assms(1) have p': "tokens_to_fetch cache tokens = Inr plan" using p by simp
  have "k \<notin> fst ` set plan"
    using tokens_to_fetch_absent [OF p'] assms(5) by fastforce
  with p' have 1: "\<exists>plan. tokens_to_fetch cache tokens = Inr plan \<and> k \<notin> fst ` set plan"
    by blast
  have mk: "m k = Some c" using merged_cached [OF m assms(1,5)] .
  with m have 2: "\<exists>m. merged_map rt env db w tokens = Inr m \<and> m k = Some c" by blast
  have 3: "format_token rt cache (tokens ! i) = Inr (out ! i)"
    using format_token_cong [OF assms(4), of m cache rt] mk assms(5) f by simp
  have cd: "c_data_of m k = c" using mk by (simp add: c_data_of_def)
  note fk = format_token_at_key [OF f assms(4)]
  have 4: "dget (out ! i) ''alt_value'' JNull = field_shown (Some c) ''alt_value''"
    "dget (out ! i) ''cartel_avg'' JNull = field_shown (Some c) ''cartel_avg''"
    "dget (out ! i) ''alt_range'' JNull = field_shown (Some c) ''alt_range''"
    using fk(3-5) by (simp_all add: shown_field_shown mk)
  have 5: "dget (out ! i) ''supply'' JNull = c_get c ''supply''"
    using fk(2) by (simp add: cd)
  from 1 2 3 4 5 show ?thesis
    by (simp only: simp_thms)
qed

theorem cached_token_not_fetched_witness:
  "lookup_page example_builtins example_env example_db [token_a, token_b, token_c] = Inr cache_a
   \<and> enrich example_builtins example_env example_db example_world [token_a, token_b, token_c]
       = Inr [entry_a, entry_b, entry_c]
   \<and> token_key ([token_a, token_b, token_c] ! 0) = Inr (KStr ''mintA'')
   \<and> cache_a (KStr ''mintA'') = Some (row_data example_builtins row_a)
   \<and> format_token example_builtins cache_a token_a = Inr entry_a
   \<and> dget entry_a ''alt_value'' JNull = JInt 100
   \<and> dget entry_a ''supply'' JNull = JInt 50"
proof -
  have i: "(0::nat) < length [token_a, token_b, token_c]" by simp
  have k: "token_key ([token_a, token_b, token_c] ! 0) = Inr (KStr ''mintA'')"
    by (simp add: example_keys)
  have c: "cache_a (KStr ''mintA'') = Some (row_data example_builtins row_a)"
    by (simp add: cache_a_def)
  from cached_token_not_fetched [OF example_lookup example_enrich i k c] example_lookup
    example_enrich k c
  show ?thesis
    by (simp add: field_shown_def c_get_def row_data_def row_a_def)
qed

text \<open>
  Claim C6. A token of the page that is not in the cache and lacks the certificate id,
  the grade or the grading company is still in the answer, at its own position, with
  the three valuation fields marked "N/A". The identifiers of the page are taken to be
  unique to the token. The example is the wallet of the specification: one token in
  the cache with valuation 100 and supply 50, one without cache entry and without
  grading attributes.
\<close>

theorem uncached_incomplete_token_kept:
  assumes "lookup_page rt env db tokens = Inr cache"
    and "enrich rt env db w tokens = Inr out"
    and "i < length tokens" and "token_key (tokens ! i) = Inr k" and "cache k = None"
    and "dict_get (tokens ! i) ''attributes'' (JArr []) = Inr attributes"
    and "get_attr attributes ''Grading ID'' = Inr cert_id"
    and "get_attr attributes ''The Grade'' = Inr grade"
    and "get_attr attributes ''Grading Company'' = Inr company"
    and "\<not> (truthy cert_id \<and> truthy grade \<and> truthy company)"
    and "\<forall>j<length tokens. token_key (tokens ! j) = Inr k \<longrightarrow> j = i"
  shows "length out = length tokens
     \<and> dict_get (tokens ! i) ''mintAddress'' JNull = Inr (dget (out ! i) ''mint'' JNull)
     \<and> valuation_unavailable (out ! i)"
proof -
  from assms(2) obtain m where m: "merged_map rt env db w tokens = Inr m"
    and len: "length out = length tokens"
    and f: "format_token rt m (tokens ! i) = Inr (out ! i)"
    using assms(3) by (auto elim: enrichE)
  have sleep: "token_task (tokens ! i) = Inr Sleep"
    using assms(6-10) by (simp add: token_task_def)
  have "m k = None"
  proof (rule merged_no_result [OF m assms(1,5)])
    fix token j t res
    assume tok: "token \<in> set tokens" "token_key token = Inr k"
      and t: "token_task token = Inr t" and r: "run_task rt env w j t = Inr res"
    from tok(1) obtain j' where "j' < length tokens" "token = tokens ! j'"
      by (auto simp: in_set_conv_nth)
    with tok(2) assms(11) have "token = tokens ! i" by blast
    with t sleep have "t = Sleep" by simp
    with r show "\<not> truthy res" by (simp add: run_task_def)
  qed
  from format_token_no_record [OF f assms(4) this] format_token_at_key(1) [OF f assms(4)] len
  show ?thesis by simp
qed

theorem uncached_incomplete_token_kept_witness:
  "lookup_page example_builtins example_env example_db [token_a, token_b] = Inr cache_a
   \<and> enrich example_builtins example_env example_db example_world [token_a, token_b]
       = Inr [entry_a, entry_b]
   \<and> token_key ([token_a, token_b] ! 1) = Inr (KStr ''mintB'')
   \<and> cache_a (KStr ''mintB'') = None
   \<and> get_attr (JArr [attribute ''Grading Company'' (JStr ''PSA'')]) ''Grading ID'' = Inr JNull
   \<and> dget entry_a ''alt_value'' JNull = JInt 100
   \<and> dget entry_b ''mint'' JNull = JStr ''mintB''
   \<and> valuation_unavailable entry_b"
proof -
  have i: "(1::nat) < length [token_a, token_b]" by simp
  have k: "token_key ([token_a, token_b] ! 1) = Inr (KStr ''mintB'')"
    by (simp add: example_keys)
  have c: "cache_a (KStr ''mintB'') = None"
    by (simp add: cache_a_def)
  have a: "dict_get ([token_a, token_b] ! 1) ''attributes'' (JArr [])
      = Inr (JArr [attribute ''Grading Company'' (JStr ''PSA'')])"
    by (simp add: token_b_def)
  have g1: "get_attr (JArr [attribute ''Grading Company'' (JStr ''PSA'')]) ''Grading ID'' = Inr JNull"
    by (simp add: get_attr_def attribute_def)
  have g2: "get_attr (JArr [attribute ''Grading Company'' (JStr ''PSA'')]) ''The Grade'' = Inr JNull"
    by (simp add: get_attr_def attribute_def)
  have g3: "get_attr (JArr [attribute ''Grading Company'' (JStr ''PSA'')]) ''Grading Company''
      = Inr (JStr ''PSA'')"
    by (simp add: get_attr_def attribute_def)
  have n: "\<not> (truthy JNull \<and> truthy JNull \<and> truthy (JStr ''PSA''))" by simp
  have u: "\<forall>j<length [token_a, token_b].
      token_key ([token_a, token_b] ! j) = Inr (KStr ''mintB'') \<longrightarrow> j = 1"
    by (simp add: less_Suc_eq example_keys)
  from uncached_incomplete_token_kept [OF example_lookup_ab example_enrich_ab i k c a g1 g2 g3 n u]
    example_lookup_ab example_enrich_ab k c g1
  show ?thesis
    by (simp add: entry_a_def entry_b_def)
qed

text \<open>
  Claim C7. For a page of well-formed tokens the answer has status 200; its list of
  tokens has the length of the page and its \<open>i\<close>-th entry is the entry of the
  \<open>i\<close>-th token of the page, whatever the sub-tasks return and in whatever order
  they end; \<open>offset\<close> and \<open>limit\<close> are the integers that the parameters of the
  request denote, 0 and 20 when the parameter is absent, the page is the one the
  inventory source gives for them, and \<open>count\<close> is the number of entries. In the
  example the request asks for 5 tokens from offset 40, and the source answers no
  other request.
\<close>

theorem main_preserves_page_order:
  assumes "wallet req = Some wallet_address" and "wallet_address \<noteq> []"
    and "(case offset_param req of None \<Rightarrow> Some 0 | Some s \<Rightarrow> int_of_str rt s) = Some offset"
    and "(case limit_param req of None \<Rightarrow> Some 20 | Some s \<Rightarrow> int_of_str rt s) = Some limit"
    and "me wallet_address limit offset = Inr page"
    and "py_iter page = Inr tokens"
    and "list_all wf_token tokens"
  shows "\<exists>out m.
     main rt env me db w req =
       Inr (HttpResponse 200 (JObj
         [(''wallet'', JStr wallet_address),
          (''tokens'', JArr out),
          (''count'', JInt (int (length out))),
          (''offset'', JInt offset),
          (''limit'', JInt limit)]))
     \<and> length out = length tokens
     \<and> merged_map rt env db w tokens = Inr m
     \<and> (\<forall>i<length tokens.
           format_token rt m (tokens ! i) = Inr (out ! i)
           \<and> dict_get (tokens ! i) ''mintAddress'' JNull = Inr (dget (out ! i) ''mint'' JNull))"
proof -
  from enrich_total [OF assms(7)] obtain out where
    e: "enrich rt env db w tokens = Inr out" ..
  then obtain m where m: "merged_map rt env db w tokens = Inr m"
    and len: "length out = length tokens"
    and fa: "\<forall>i<length tokens. format_token rt m (tokens ! i) = Inr (out ! i)"
    by (auto elim: enrichE)
  then have f: "format_token rt m (tokens ! i) = Inr (out ! i)" if "i < length tokens" for i
    using that by blast
  have mint: "dict_get (tokens ! i) ''mintAddress'' JNull = Inr (dget (out ! i) ''mint'' JNull)"
    if "i < length tokens" for i
  proof -
    from format_token_key [OF f [OF that]] obtain k where "token_key (tokens ! i) = Inr k" ..
    from format_token_at_key(1) [OF f [OF that] this] show ?thesis .
  qed
  have o: "int_param rt (offset_param req) 0 = Inr offset"
    using assms(3) by (cases "offset_param req") (simp_all add: int_param_def)
  have l: "int_param rt (limit_param req) 20 = Inr limit"
    using assms(4) by (cases "limit_param req") (simp_all add: int_param_def)
  have "main rt env me db w req =
       Inr (HttpResponse 200 (JObj
         [(''wallet'', JStr wallet_address),
          (''tokens'', JArr out),
          (''count'', JInt (int (length out))),
          (''offset'', JInt offset),
          (''limit'', JInt limit)]))"
    using assms(1,2,5,6) o l e by (simp add: main_def main_try_def try_except_def)
  with len m f mint show ?thesis by blast
qed

theorem main_preserves_page_order_witness:
  "wallet paged_request = Some ''wallet1''
   \<and> offset_param paged_request = Some ''40'' \<and> limit_param paged_request = Some ''5''
   \<and> paged_inventory ''wallet1'' 5 40 = Inr (JArr [token_a, token_b])
   \<and> paged_inventory ''wallet1'' 20 0 = Inl RequestError
   \<and> list_all wf_token [token_a, token_b]
   \<and> main example_builtins example_env paged_inventory example_db example_world paged_request
       = Inr (HttpResponse 200 (JObj
           [(''wallet'', JStr ''wallet1''), (''tokens'', JArr [entry_a, entry_b]),
            (''count'', JInt 2), (''offset'', JInt 40), (''limit'', JInt 5)]))"
proof -
  have w: "wallet paged_request = Some ''wallet1''" by (simp add: paged_request_def)
  have ne: "''wallet1'' \<noteq> []" by simp
  have o: "(case offset_param paged_request of None \<Rightarrow> Some 0
            | Some s \<Rightarrow> int_of_str example_builtins s) = Some 40"
    by (simp add: paged_request_def example_builtins_def)
  have l: "(case limit_param paged_request of None \<Rightarrow> Some 20
            | Some s \<Rightarrow> int_of_str example_builtins s) = Some 5"
    by (simp add: paged_request_def example_builtins_def)
  have p: "paged_inventory ''wallet1'' 5 40 = Inr (JArr [token_a, token_b])"
    by (simp add: paged_inventory_def)
  have q: "paged_inventory ''wallet1'' 20 0 = Inl RequestError"
    by (simp add: paged_inventory_def)
  have it: "py_iter (JArr [token_a, token_b]) = Inr [token_a, token_b]" by simp
  from main_preserves_page_order [where req = paged_request and rt = example_builtins
      and me = paged_inventory and wallet_address = "''wallet1''" and offset = 40
      and limit = 5 and page = "JArr [token_a, token_b]" and tokens = "[token_a, token_b]"
      and env = example_env and db = example_db and w = example_world,
      OF w ne o l p it example_wf]
  obtain out m where
    r: "main example_builtins example_env paged_inventory example_db example_world paged_request
       = Inr (HttpResponse 200 (JObj
           [(''wallet'', JStr ''wallet1''), (''tokens'', JArr out),
            (''count'', JInt (int (length out))), (''offset'', JInt 40), (''limit'', JInt 5)]))"
    and len: "length out = length [token_a, token_b]"
    and m: "merged_map example_builtins example_env example_db example_world [token_a, token_b] = Inr m"
    and f: "\<forall>i<length [token_a, token_b].
           format_token example_builtins m ([token_a, token_b] ! i) = Inr (out ! i)
           \<and> dict_get ([token_a, token_b] ! i) ''mintAddress'' JNull
               = Inr (dget (out ! i) ''mint'' JNull)"
    by blast
  from f len have "map_exc (format_token example_builtins m) [token_a, token_b] = Inr out"
    by (subst map_exc_eq_Inr) auto
  with m have "enrich example_builtins example_env example_db example_world [token_a, token_b]
      = Inr out"
    by (simp only: enrich_def bnd_Inr)
  with example_enrich_ab have "out = [entry_a, entry_b]" by simp
  with r w p q example_wf show ?thesis by (simp add: paged_request_def)
qed

text \<open>
  Claim C8. The cache lookup of no identifier is the empty map; the lookup never raises;
  a store that raises, and a configuration with a value missing, give the empty map,
  and the answer of the request is then the answer it has with a store without rows,
  every token being handed to a sub-task.
\<close>

theorem cache_failure_degrades:
  "cache_lookup rt env db [] = Inr (\<lambda>k. None)
   \<and> (\<exists>m. cache_lookup rt env db mints = Inr m)
   \<and> cache_lookup rt env (\<lambda>mints. Inl e) mints = Inr (\<lambda>k. None)
   \<and> main rt env me (\<lambda>mints. Inl e) w req = main rt env me (\<lambda>mints. Inr []) w req
   \<and> (\<not> list_all env_set
          [POSTGRES_HOST env, POSTGRES_PORT env, POSTGRES_DB env, POSTGRES_USER env,
           POSTGRES_PASSWORD env]
      \<longrightarrow> cache_lookup rt env db mints = Inr (\<lambda>k. None)
          \<and> main rt env me db w req = main rt env me (\<lambda>mints. Inr []) w req)
   \<and> (tokens_to_fetch (\<lambda>k. None) tokens = Inr plan \<longrightarrow> length plan = length tokens)"
proof -
  have 1: "cache_lookup rt env db [] = Inr (\<lambda>k. None)"
    by (simp add: cache_lookup_def)
  have 2: "main rt env me (\<lambda>mints. Inl e) w req = main rt env me (\<lambda>mints. Inr []) w req"
    by (rule main_same_cache) (simp add: cache_lookup_down cache_lookup_no_rows)
  have 3: "main rt env me db w req = main rt env me (\<lambda>mints. Inr []) w req"
    if "\<not> list_all env_set
          [POSTGRES_HOST env, POSTGRES_PORT env, POSTGRES_DB env, POSTGRES_USER env,
           POSTGRES_PASSWORD env]"
    by (rule main_same_cache) (simp add: cache_lookup_unconfigured [OF that] cache_lookup_no_rows)
  show ?thesis
    using 1 2 3 cache_lookup_total [of rt env db mints] cache_lookup_down [of rt env e mints]
      cache_lookup_unconfigured [of env rt db mints] tokens_to_fetch_all [of tokens plan]
    by blast
qed

theorem cache_failure_degrades_witness:
  "\<not> list_all env_set
       [POSTGRES_HOST unconfigured_env, POSTGRES_PORT unconfigured_env,
        POSTGRES_DB unconfigured_env, POSTGRES_USER unconfigured_env,
        POSTGRES_PASSWORD unconfigured_env]
   \<and> cache_lookup example_builtins unconfigured_env example_db [JStr ''mintA''] = Inr (\<lambda>k. None)
   \<and> main example_builtins unconfigured_env example_inventory example_db example_world
        example_request
       = main example_builtins unconfigured_env example_inventory (\<lambda>mints. Inr []) example_world
           example_request
   \<and> tokens_to_fetch (\<lambda>k. None) [token_a, token_b]
       = Inr [(KStr ''mintA'', Fetch (JStr ''11111111'') (JStr ''10'') (JStr ''PSA'')),
              (KStr ''mintB'', Sleep)]
   \<and> length [(KStr ''mintA'', Fetch (JStr ''11111111'') (JStr ''10'') (JStr ''PSA'')),
              (KStr ''mintB'', Sleep)] = length [token_a, token_b]"
proof -
  have u: "\<not> list_all env_set
       [POSTGRES_HOST unconfigured_env, POSTGRES_PORT unconfigured_env,
        POSTGRES_DB unconfigured_env, POSTGRES_USER unconfigured_env,
        POSTGRES_PASSWORD unconfigured_env]"
    by (simp add: unconfigured_env_def env_set_def)
  have t: "tokens_to_fetch (\<lambda>k. None) [token_a, token_b]
       = Inr [(KStr ''mintA'', Fetch (JStr ''11111111'') (JStr ''10'') (JStr ''PSA'')),
              (KStr ''mintB'', Sleep)]"
    by code_simp
  note c = cache_failure_degrades [of example_builtins unconfigured_env example_db
      "[JStr ''mintA'']" RequestError example_inventory example_world example_request
      "[token_a, token_b]"
      "[(KStr ''mintA'', Fetch (JStr ''11111111'') (JStr ''10'') (JStr ''PSA'')),
        (KStr ''mintB'', Sleep)]"]
  from c u t show ?thesis by blast
qed

text \<open>
  Claim C9, as stated, fails: a record that is present does not always show its value.
  The token of the example is in the cache with the valuation 0 and is shown with
  "N/A"; the fetched record of another has the average price 0.0, for want of any
  transaction, and is shown with "N/A" as well.
\<close>

theorem zero_valuation_shown_unavailable:
  "c_get (row_data example_builtins row_z) ''alt_value'' = JInt 0
   \<and> get_alt_data_async example_builtins example_env client_no_sales (10 * usec_per_day)
       (JStr ''12345678'') (JStr ''9'') (JStr ''PSA'')
       = Inr (JObj
           [(''alt_asset_id'', JStr ''asset-1''), (''alt_value'', JInt 150),
            (''avg_price'', JFloat 0), (''supply'', JInt 50), (''lower_bound'', JInt 120),
            (''upper_bound'', JInt 180), (''confidence'', JFloat 0)])
   \<and> enrich example_builtins example_env (\<lambda>mints. Inr [row_z]) world_no_sales [token_z, token_c]
       = Inr [entry_z, entry_c_no_sales]
   \<and> dget entry_z ''alt_value'' JNull = JStr ''N/A''
   \<and> dget entry_c_no_sales ''cartel_avg'' JNull = JStr ''N/A''"
  by code_simp

text \<open>
  Claim C9, amended. The record of a token in the merged map is its record of the cache
  when it has one; else the record made of what the resolver returned to the sub-task
  of that very token, the tokens without cache record being numbered in the order of
  the page (and the last one counting when several of them share the identifier); else
  there is none. Each valuation field of the entry is the value of that record when the
  value is true in the sense of Python (not \<open>None\<close>, not zero, not empty), and "N/A"
  otherwise: also when the record is present and the value is \<open>None\<close> or 0. In the
  example the server answers the sub-task 1 only, which is the one of the third token
  of the page.
\<close>

theorem merged_fields_by_truth:
  assumes "lookup_page rt env db tokens = Inr cache"
    and "merged_map rt env db w tokens = Inr m"
    and "format_token rt m token = Inr out" and "token_key token = Inr k"
  shows "m k = merged_record rt env w cache tokens k
     \<and> dget out ''alt_value'' JNull
         = field_shown (merged_record rt env w cache tokens k) ''alt_value''
     \<and> dget out ''cartel_avg'' JNull
         = field_shown (merged_record rt env w cache tokens k) ''cartel_avg''
     \<and> dget out ''alt_range'' JNull
         = field_shown (merged_record rt env w cache tokens k) ''alt_range''"
  using merged_is_merged_record [OF assms(1,2), of k] format_token_at_key [OF assms(3,4)]
  by (simp add: shown_field_shown)

theorem merged_fields_by_truth_witness:
  "lookup_page example_builtins example_env example_db [token_a, token_b, token_c] = Inr cache_a
   \<and> merged_map example_builtins example_env example_db world_by_task [token_a, token_b, token_c]
       = Inr (cache_a(KStr ''mintC'' := Some fetched_c))
   \<and> format_token example_builtins (cache_a(KStr ''mintC'' := Some fetched_c)) token_c
       = Inr entry_c
   \<and> token_key token_c = Inr (KStr ''mintC'')
   \<and> sub_results example_builtins example_env world_by_task cache_a 0 [token_a, token_b, token_c]
       = [(KStr ''mintB'', JNull),
          (KStr ''mintC'', JObj
             [(''alt_asset_id'', JStr ''asset-1''), (''alt_value'', JInt 150),
              (''avg_price'', JFloat 120), (''supply'', JInt 50), (''lower_bound'', JInt 120),
              (''upper_bound'', JInt 180), (''confidence'', JFloat 0)])]
   \<and> merged_record example_builtins example_env world_by_task cache_a
         [token_a, token_b, token_c] (KStr ''mintC'') = Some fetched_c
   \<and> dget entry_c ''alt_value'' JNull = JInt 150
   \<and> dget entry_c ''cartel_avg'' JNull = JFloat 120
   \<and> dget entry_c ''alt_range'' JNull = JStr ''120 - 180''"
proof -
  have m: "merged_map example_builtins example_env example_db world_by_task
      [token_a, token_b, token_c] = Inr (cache_a(KStr ''mintC'' := Some fetched_c))"
    by (simp add: run_defs example_defs cache_a_def world_by_task_def client_down_def)
  have f: "format_token example_builtins (cache_a(KStr ''mintC'' := Some fetched_c)) token_c
       = Inr entry_c"
    by code_simp
  have s: "sub_results example_builtins example_env world_by_task cache_a 0
        [token_a, token_b, token_c]
       = [(KStr ''mintB'', JNull),
          (KStr ''mintC'', JObj
             [(''alt_asset_id'', JStr ''asset-1''), (''alt_value'', JInt 150),
              (''avg_price'', JFloat 120), (''supply'', JInt 50), (''lower_bound'', JInt 120),
              (''upper_bound'', JInt 180), (''confidence'', JFloat 0)])]"
    by code_simp
  have r: "merged_record example_builtins example_env world_by_task cache_a
         [token_a, token_b, token_c] (KStr ''mintC'') = Some fetched_c"
    by code_simp
  have v: "dget entry_c ''alt_value'' JNull = JInt 150"
    "dget entry_c ''cartel_avg'' JNull = JFloat 120"
    "dget entry_c ''alt_range'' JNull = JStr ''120 - 180''"
    by (simp_all add: entry_c_def)
  from merged_fields_by_truth [OF example_lookup m f example_keys(3)]
  have "dget entry_c ''alt_value'' JNull
      = field_shown (merged_record example_builtins example_env world_by_task cache_a
           [token_a, token_b, token_c] (KStr ''mintC'')) ''alt_value''"
    by blast
  with example_lookup m f example_keys(3) s r v
  show ?thesis
    by (simp only: simp_thms)
qed

text \<open>
  Claim C10. With the authorization token or the cookie unset (or empty) the resolver
  returns \<open>None\<close> for every input, and every token of the page that is not in the
  cache is shown with the three valuation fields marked "N/A".
\<close>

theorem no_credentials_no_valuation:
  assumes "\<not> env_set (ALT_AUTH_TOKEN env) \<or> \<not> env_set (ALT_COOKIE env)"
  shows "get_alt_data_async rt env client now cert_id grade company = Inr JNull
     \<and> (lookup_page rt env db tokens = Inr cache \<and> enrich rt env db w tokens = Inr out
          \<and> i < length tokens \<and> token_key (tokens ! i) = Inr k \<and> cache k = None
        \<longrightarrow> valuation_unavailable (out ! i))"
proof -
  have none: "get_alt_data_async rt env client now cert_id grade company = Inr JNull"
    for client now cert_id grade company
    using assms by (auto simp: get_alt_data_async_def)
  have falsy: "\<not> truthy res" if "run_task rt env w j t = Inr res" for j t res
    using that none by (cases t) (auto simp: run_task_def)
  have "valuation_unavailable (out ! i)"
    if l: "lookup_page rt env db tokens = Inr cache" and e: "enrich rt env db w tokens = Inr out"
      and i: "i < length tokens" and k: "token_key (tokens ! i) = Inr k" and c: "cache k = None"
  proof -
    from e i obtain m where m: "merged_map rt env db w tokens = Inr m"
      and f: "format_token rt m (tokens ! i) = Inr (out ! i)"
      by (auto elim: enrichE)
    from merged_no_result [OF m l c] falsy have "m k = None" by blast
    from format_token_no_record [OF f k this] show ?thesis .
  qed
  with none show ?thesis by blast
qed

theorem no_credentials_no_valuation_witness:
  "\<not> env_set (ALT_AUTH_TOKEN env_no_auth)
   \<and> get_alt_data_async example_builtins env_no_auth example_client 0
       (JStr ''12345678'') (JStr ''9'') (JStr ''PSA'') = Inr JNull
   \<and> enrich example_builtins env_no_auth example_db example_world [token_a, token_b, token_c]
       = Inr [entry_a, entry_b, entry_c_no_auth]
   \<and> valuation_unavailable entry_c_no_auth"
proof -
  have n: "\<not> env_set (ALT_AUTH_TOKEN env_no_auth) \<or> \<not> env_set (ALT_COOKIE env_no_auth)"
    by (simp add: env_no_auth_def env_set_def)
  have i: "(2::nat) < length [token_a, token_b, token_c]" by simp
  have k: "token_key ([token_a, token_b, token_c] ! 2) = Inr (KStr ''mintC'')"
    by (simp add: example_keys)
  have c: "cache_a (KStr ''mintC'') = None"
    by (simp add: cache_a_def)
  have n1: "\<not> env_set (ALT_AUTH_TOKEN env_no_auth)"
    by (simp add: env_no_auth_def env_set_def)
  note t = no_credentials_no_valuation [OF n, of example_builtins example_client 0
      "JStr ''12345678''" "JStr ''9''" "JStr ''PSA''" example_db "[token_a, token_b, token_c]"
      cache_a example_world "[entry_a, entry_b, entry_c_no_auth]" 2 "KStr ''mintC''"]
  from t have r: "get_alt_data_async example_builtins env_no_auth example_client 0
       (JStr ''12345678'') (JStr ''9'') (JStr ''PSA'') = Inr JNull"
    by (rule conjunct1)
  from t [THEN conjunct2] example_lookup_no_auth example_enrich_no_auth i k c
  have "valuation_unavailable ([entry_a, entry_b, entry_c_no_auth] ! 2)"
    by blast
  then have "valuation_unavailable entry_c_no_auth" by simp
  with n1 r example_enrich_no_auth show ?thesis
    by (simp only: simp_thms)
qed

end
